theory Spec2Isabelle
  imports Complex_Main "HOL-Library.Log_Nat"
begin

unbundle bit_operations_syntax

section \<open>Python values and errors\<close>

text \<open>
  The simulated quantities of \<open>mqtt.py\<close> are Python floats; they are modelled as reals.
  The initial assignments are rounded as doubles, because the upper end of the initial
  ranges depends on the rounding; the sums and products of the evolution step and of
  the index are taken exactly. The dynamic type of a value matters for the operator
  \<open>^\<close>, which Python defines on integers only, so values carry their type.
\<close>

datatype pyval = PyInt int | PyFloat real

datatype error =
    TypeError | ValueError | ZeroDivisionError
  | IOError | JWTError | TLSError | ConnectError

fun to_real :: "pyval \<Rightarrow> real" where
  "to_real (PyInt i) = of_int i"
| "to_real (PyFloat x) = x"

text \<open>\<open>math.sqrt\<close>: raises ValueError (math domain error) on a negative argument.\<close>

definition math_sqrt :: "real \<Rightarrow> error + real" where
  "math_sqrt x = (if x < 0 then Inl ValueError else Inr (sqrt x))"

text \<open>The operator \<open>^\<close>: bitwise exclusive or on ints, TypeError on any float operand.\<close>

fun py_xor :: "pyval \<Rightarrow> pyval \<Rightarrow> error + pyval" where
  "py_xor (PyInt a) (PyInt b) = Inr (PyInt (a XOR b))"
| "py_xor (PyInt a) (PyFloat y) = Inl TypeError"
| "py_xor (PyFloat x) b = Inl TypeError"

text \<open>The operator \<open>/\<close> (true division): ZeroDivisionError on a zero divisor.\<close>

definition py_truediv :: "pyval \<Rightarrow> pyval \<Rightarrow> error + pyval" where
  "py_truediv a b =
     (if to_real b = 0 then Inl ZeroDivisionError
      else Inr (PyFloat (to_real a / to_real b)))"

section \<open>Rounding to a double\<close>

text \<open>
  A Python float is an IEEE 754 double: 53 significant bits, round to nearest, ties to
  even. \<open>binade x\<close> is the exponent \<open>e\<close> with \<open>2^e \<le> |x| < 2^(e+1)\<close>, found from the bit
  length of the integer part (or of the reciprocal, below 1); \<open>round_double x\<close> is the
  nearest multiple of \<open>2^(e-52)\<close>. Overflow and subnormal numbers are left out: the
  values rounded here stay far from both.
\<close>

definition pow2 :: "int \<Rightarrow> real" where
  "pow2 e = (if 0 \<le> e then 2 ^ nat e else 1 / 2 ^ nat (- e))"

definition round_even :: "real \<Rightarrow> int" where
  "round_even y =
     (let f = \<lfloor>y\<rfloor> in
      if y - of_int f < 1/2 then f
      else if 1/2 < y - of_int f then f + 1
      else if even f then f else f + 1)"

definition binade :: "real \<Rightarrow> int" where
  "binade x =
     (if 1 \<le> \<bar>x\<bar> then bitlen \<lfloor>\<bar>x\<bar>\<rfloor> - 1 else - bitlen (\<lceil>1 / \<bar>x\<bar>\<rceil> - 1))"

definition round_double :: "real \<Rightarrow> real" where
  "round_double x =
     (if x = 0 then 0
      else of_int (round_even (x / pow2 (binade x - 52))) * pow2 (binade x - 52))"

section \<open>The pseudo-random source\<close>

text \<open>
  The module \<open>random\<close> is a library, not part of the repository. Its global generator
  is a parameter of the model: \<open>seed_fn\<close> is \<open>random.seed\<close> (the new generator state is a
  function of the seed alone), \<open>random_fn\<close> is \<open>random.random\<close> and
  \<open>normalvariate_fn mu sigma\<close> is \<open>random.normalvariate(mu, sigma)\<close>; the last two
  return the draw and the next generator state.
\<close>

record 'g prng =
  seed_fn :: "string \<Rightarrow> 'g"
  random_fn :: "'g \<Rightarrow> real \<times> 'g"
  normalvariate_fn :: "real \<Rightarrow> real \<Rightarrow> 'g \<Rightarrow> real \<times> 'g"

text \<open>\<open>random.random()\<close> returns a float in the half-open interval from 0 to 1.\<close>

definition unit_interval :: "'g prng \<Rightarrow> bool" where
  "unit_interval P = (\<forall>g. 0 \<le> fst (random_fn P g) \<and> fst (random_fn P g) < 1)"

section \<open>The simulated environment (local variables of \<open>main\<close>)\<close>

record sim_state =
  simulated_temp :: real
  simulated_temp_out :: real
  sim_pressure :: real
  sim_hum :: real
  sim_hum_out :: real
  sim_uv :: real
  sim_irr :: real
  sim_smoist :: real
  sim_co2 :: real
  sim_ch4 :: real
  sim_n20 :: real
  sim_cfc :: real
  temperature_trend :: int

text \<open>
  \<open>base + random.random() * range\<close>, one draw: a double product, then a double sum.
\<close>

definition uniform_from :: "'g prng \<Rightarrow> real \<Rightarrow> real \<Rightarrow> 'g \<Rightarrow> real \<times> 'g" where
  "uniform_from P base rng g =
     (let (u, g') = random_fn P g in (round_double (base + round_double (u * rng)), g'))"

text \<open>\<open>1 if random.random() > 0.5 else -1\<close>, one draw.\<close>

definition coin :: "'g prng \<Rightarrow> 'g \<Rightarrow> int \<times> 'g" where
  "coin P g = (let (u, g') = random_fn P g in (if u > 1/2 then 1 else - 1, g'))"

text \<open>
  Lines 160 to 181: seed the generator with the device id, draw the twelve initial
  quantities in source order, then the temperature trend.
\<close>

definition init_sim :: "'g prng \<Rightarrow> string \<Rightarrow> sim_state \<times> 'g" where
  "init_sim P dev =
    (let g0 = seed_fn P dev;
         (v1, g1) = uniform_from P 45 20 g0;
         (v2, g2) = uniform_from P 35 10 g1;
         (v3, g3) = uniform_from P 1000 25 g2;
         (v4, g4) = uniform_from P 25 30 g3;
         (v5, g5) = uniform_from P 15 30 g4;
         (v6, g6) = uniform_from P 5 10 g5;
         (v7, g7) = uniform_from P 6 10 g6;
         (v8, g8) = uniform_from P 50 10 g7;
         (v9, g9) = uniform_from P 430 50 g8;
         (v10, g10) = uniform_from P 1900 200 g9;
         (v11, g11) = uniform_from P 330 100 g10;
         (v12, g12) = uniform_from P 900 300 g11;
         (t, g13) = coin P g12
     in (\<lparr> simulated_temp = v1, simulated_temp_out = v2, sim_pressure = v3,
           sim_hum = v4, sim_hum_out = v5, sim_uv = v6, sim_irr = v7,
           sim_smoist = v8, sim_co2 = v9, sim_ch4 = v10, sim_n20 = v11,
           sim_cfc = v12, temperature_trend = t \<rparr>, g13))"

text \<open>\<open>temperature_trend * random.normalvariate(0.01, 0.005)\<close>.\<close>

definition trend_step :: "'g prng \<Rightarrow> int \<Rightarrow> 'g \<Rightarrow> real \<times> 'g" where
  "trend_step P t g =
     (let (d, g') = normalvariate_fn P (1/100) (5/1000) g in (of_int t * d, g'))"

text \<open>
  \<open>(1 if random.random() > 0.5 else -1) * random.normalvariate(0.1, 0.01)\<close>: the left
  operand is evaluated first, so the coin is drawn before the normal variate.
\<close>

definition coin_step :: "'g prng \<Rightarrow> 'g \<Rightarrow> real \<times> 'g" where
  "coin_step P g =
     (let (c, g1) = coin P g;
          (d, g2) = normalvariate_fn P (1/10) (1/100) g1
      in (of_int c * d, g2))"

text \<open>Lines 186 to 197: one evolution step of the twelve quantities.\<close>

definition advance :: "'g prng \<Rightarrow> sim_state \<Rightarrow> 'g \<Rightarrow> sim_state \<times> 'g" where
  "advance P s g =
    (let (d1, g1) = trend_step P (temperature_trend s) g;
         (d2, g2) = trend_step P (temperature_trend s) g1;
         (d3, g3) = coin_step P g2;
         (d4, g4) = coin_step P g3;
         (d5, g5) = coin_step P g4;
         (d6, g6) = coin_step P g5;
         (d7, g7) = coin_step P g6;
         (d8, g8) = coin_step P g7;
         (d9, g9) = coin_step P g8;
         (d10, g10) = coin_step P g9;
         (d11, g11) = coin_step P g10;
         (d12, g12) = coin_step P g11
     in (s\<lparr> simulated_temp := simulated_temp s + d1,
            simulated_temp_out := simulated_temp_out s + d2,
            sim_pressure := sim_pressure s + d3,
            sim_hum := sim_hum s + d4,
            sim_hum_out := sim_hum_out s - d5,
            sim_uv := sim_uv s + d6,
            sim_irr := sim_irr s + d7,
            sim_smoist := sim_smoist s + d8,
            sim_co2 := sim_co2 s + d9,
            sim_ch4 := sim_ch4 s + d10,
            sim_n20 := sim_n20 s + d11,
            sim_cfc := sim_cfc s + d12 \<rparr>, g12))"

text \<open>
  Lines 199 and 200. Python's \<open>^\<close> binds weaker than \<open>+\<close>, \<open>-\<close>, \<open>*\<close> and \<open>/\<close>, so
  inside the outer parentheses the expression parses as
  \<open>(simulated_temp - simulated_temp_out) ^ (3/500 + sqrt(sqrt(...)) - 10 * (...) + sim_uv)\<close>.
  Evaluation goes left to right: the left operand of \<open>^\<close>, the right operand (where
  \<open>math.sqrt\<close> may raise), the \<open>^\<close> itself, then the divisor and the division.
  The quotient \<open>3/500\<close> is the true division of Python 3; under Python 2 it would be
  the integer 0, and the right operand a float all the same.
\<close>

definition g_score :: "sim_state \<Rightarrow> error + pyval" where
  "g_score s =
    (case math_sqrt (sim_ch4 s + sim_co2 s + sim_n20 s + sim_cfc s) of
       Inl e \<Rightarrow> Inl e
     | Inr r1 \<Rightarrow>
    (case math_sqrt r1 of
       Inl e \<Rightarrow> Inl e
     | Inr r2 \<Rightarrow>
    (case py_xor (PyFloat (simulated_temp s - simulated_temp_out s))
                 (PyFloat (3/500 + r2 - 10 * (sim_smoist s + sim_irr s) + sim_uv s)) of
       Inl e \<Rightarrow> Inl e
     | Inr x \<Rightarrow>
         py_truediv x (PyFloat (sim_pressure s + (sim_hum s - sim_hum_out s))))))"

text \<open>
  The composite index as the specification words it: arithmetic cube of the
  temperature difference, divided by 500, inside the numerator.
\<close>

definition index_spec :: "sim_state \<Rightarrow> real" where
  "index_spec s =
     ((simulated_temp s - simulated_temp_out s) ^ 3 / 500
        + sqrt (sqrt (sim_ch4 s + sim_co2 s + sim_n20 s + sim_cfc s))
        - 10 * (sim_smoist s + sim_irr s)
        + sim_uv s)
     / (sim_pressure s + (sim_hum s - sim_hum_out s))"

text \<open>The state reached after \<open>n\<close> evolution steps (the loop body's lines 186 to 197).\<close>

fun sim_run :: "'g prng \<Rightarrow> nat \<Rightarrow> sim_state \<times> 'g \<Rightarrow> sim_state \<times> 'g" where
  "sim_run P 0 sg = sg"
| "sim_run P (Suc n) sg = sim_run P n (advance P (fst sg) (snd sg))"

section \<open>The outside world: clock, files, signing, transport\<close>

text \<open>
  Times are integers counting microseconds since the epoch (the resolution of
  \<open>datetime\<close>). The system clock is read by \<open>datetime.datetime.utcnow()\<close> and by
  \<open>time.time()\<close>; its successive readings are a parameter (\<open>clock X k\<close> is reading
  number \<open>k\<close>), and the world counts the readings taken so far. The key file, the JWT
  library and the MQTT client are collaborators outside the repository: what they
  return is a parameter, and every call made to the client is logged in order.
\<close>

datatype jval = JNum pyval | JStr string

datatype event =
    NewClient string
  | UsernamePwSet string string
  | TlsSet string
  | Connect string int
  | LoopStart
  | Publish string "(string \<times> jval) list" nat
  | Sleep nat
  | LoopStop

record claims =
  claim_iat :: int
  claim_exp :: int
  claim_aud :: string

record externals =
  clock :: "nat \<Rightarrow> int"
  read_file :: "string \<Rightarrow> string option"
  jwt_encode :: "claims \<Rightarrow> string \<Rightarrow> string \<Rightarrow> string option"
  tls_ok :: "string \<Rightarrow> bool"
  connect_ok :: "string \<Rightarrow> int \<Rightarrow> bool"

record 'g world =
  rng :: 'g
  clock_reads :: nat
  events :: "event list"

record args =
  project_id :: string
  registry_id :: string
  device_id :: string
  private_key_file :: string
  algorithm :: string
  cloud_region :: string
  ca_certs :: string
  num_messages :: int
  message_type :: string
  mqtt_bridge_hostname :: string
  mqtt_bridge_port :: int

definition emit :: "event \<Rightarrow> 'g world \<Rightarrow> 'g world" where
  "emit e w = w\<lparr> events := events w @ [e] \<rparr>"

text \<open>\<open>datetime.datetime.utcnow()\<close>.\<close>

definition utcnow :: "externals \<Rightarrow> 'g world \<Rightarrow> int \<times> 'g world" where
  "utcnow X w = (clock X (clock_reads w), w\<lparr> clock_reads := Suc (clock_reads w) \<rparr>)"

text \<open>\<open>int(time.time())\<close>: whole seconds, truncated towards zero.\<close>

definition time_time :: "externals \<Rightarrow> 'g world \<Rightarrow> int \<times> 'g world" where
  "time_time X w =
     (let t = clock X (clock_reads w);
          secs = (if 0 \<le> t then t div 1000000 else - ((- t) div 1000000))
      in (secs, w\<lparr> clock_reads := Suc (clock_reads w) \<rparr>))"

section \<open>\<open>create_jwt\<close>\<close>

text \<open>\<open>datetime.timedelta(minutes=60)\<close> in microseconds.\<close>

definition minutes60 :: int where
  "minutes60 = 60 * 60 * 1000000"

text \<open>
  Lines 29 to 36, the claim set: the dictionary's values are evaluated in order, so the
  clock is read once for \<open>iat\<close> and once more for \<open>exp\<close>.
\<close>

definition token_claims :: "externals \<Rightarrow> string \<Rightarrow> 'g world \<Rightarrow> claims \<times> 'g world" where
  "token_claims X proj w =
     (let (t1, w1) = utcnow X w;
          (t2, w2) = utcnow X w1
      in (\<lparr> claim_iat = t1, claim_exp = t2 + minutes60, claim_aud = proj \<rparr>, w2))"

text \<open>
  Lines 38 to 45: read the key file (IOError when it cannot be read) and hand the
  claim set to \<open>jwt.encode\<close> (which raises on a key it cannot use).
\<close>

definition create_jwt ::
    "externals \<Rightarrow> string \<Rightarrow> string \<Rightarrow> string \<Rightarrow> 'g world \<Rightarrow> (error + string) \<times> 'g world" where
  "create_jwt X proj key_file alg w =
     (let (token, w1) = token_claims X proj w in
      case read_file X key_file of
        None \<Rightarrow> (Inl IOError, w1)
      | Some private_key \<Rightarrow>
          (case jwt_encode X token private_key alg of
             None \<Rightarrow> (Inl JWTError, w1)
           | Some t \<Rightarrow> (Inr t, w1)))"

section \<open>The publish loop and \<open>main\<close>\<close>

text \<open>
  Lines 204 to 217: the payload dictionary, keys verbatim and in source order. The
  serialisation by \<open>json.dumps\<close> is not modelled: a publish event carries the
  dictionary itself.
\<close>

definition make_payload :: "int \<Rightarrow> string \<Rightarrow> sim_state \<Rightarrow> pyval \<Rightarrow> (string \<times> jval) list" where
  "make_payload t dev s g =
     [(''timestamp'', JNum (PyInt t)),
      (''device'', JStr dev),
      (''Temp In'', JNum (PyFloat (simulated_temp s))),
      (''Temp Out'', JNum (PyFloat (simulated_temp_out s))),
      (''Pressure'', JNum (PyFloat (sim_pressure s))),
      (''Humidity In'', JNum (PyFloat (sim_hum s))),
      (''Humidity Out'', JNum (PyFloat (sim_hum_out s))),
      (''UV Index'', JNum (PyFloat (sim_uv s))),
      (''Solar Irradiance'', JNum (PyFloat (sim_irr s))),
      (''Soil Moisture'', JNum (PyFloat (sim_smoist s))),
      (''Carbon Dioxide ppb'', JNum (PyFloat (sim_co2 s))),
      (''Methan ppb'', JNum (PyFloat (sim_ch4 s))),
      (''Nitrous Oxide ppb'', JNum (PyFloat (sim_n20 s))),
      (''CFC ppb'', JNum (PyFloat (sim_cfc s))),
      (''G - Index'', JNum g)]"

text \<open>
  Lines 184 to 227, the loop over \<open>range(1, num_messages + 1)\<close>. Nothing catches an
  exception: the first one raised ends the loop and leaves \<open>main\<close>. The result is the
  exception (if any), the final local state and the final world. The index
  computation of lines 199 and 200 is the parameter \<open>idx\<close>, so that what is proved of
  the loop does not rest on what that expression returns; the loop of the source is
  the instance at \<open>g_score\<close>.
\<close>

fun publish_loop_with ::
    "(sim_state \<Rightarrow> error + pyval) \<Rightarrow> 'g prng \<Rightarrow> externals \<Rightarrow> args \<Rightarrow> string \<Rightarrow> int list
       \<Rightarrow> sim_state \<Rightarrow> 'g world \<Rightarrow> error option \<times> sim_state \<times> 'g world" where
  "publish_loop_with idx P X a topic [] s w = (None, s, w)"
| "publish_loop_with idx P X a topic (i # rest) s w =
     (let (s1, g1) = advance P s (rng w);
          w1 = w\<lparr> rng := g1 \<rparr>
      in case idx s1 of
           Inl e \<Rightarrow> (Some e, s1, w1)
         | Inr g \<Rightarrow>
             (let (t, w2) = time_time X w1;
                  w3 = emit (Publish topic (make_payload t (device_id a) s1 g) 1) w2;
                  w4 = emit (Sleep (if message_type a = ''event'' then 1 else 5)) w3
              in publish_loop_with idx P X a topic rest s1 w4))"

definition publish_loop ::
    "'g prng \<Rightarrow> externals \<Rightarrow> args \<Rightarrow> string \<Rightarrow> int list \<Rightarrow> sim_state \<Rightarrow> 'g world
       \<Rightarrow> error option \<times> sim_state \<times> 'g world" where
  "publish_loop = publish_loop_with g_score"

text \<open>Lines 156 to 227: topic, seeding and initial state, then the loop.\<close>

definition publish_phase_with ::
    "(sim_state \<Rightarrow> error + pyval) \<Rightarrow> 'g prng \<Rightarrow> externals \<Rightarrow> args \<Rightarrow> 'g world
       \<Rightarrow> error option \<times> sim_state \<times> 'g world" where
  "publish_phase_with idx P X a w =
     (let sub_topic = (if message_type a = ''event'' then ''events'' else ''state'');
          mqtt_topic = ''/devices/'' @ device_id a @ ''/'' @ sub_topic;
          (s0, g0) = init_sim P (device_id a)
      in publish_loop_with idx P X a mqtt_topic [1..num_messages a] s0 (w\<lparr> rng := g0 \<rparr>))"

definition publish_phase ::
    "'g prng \<Rightarrow> externals \<Rightarrow> args \<Rightarrow> 'g world \<Rightarrow> error option \<times> sim_state \<times> 'g world" where
  "publish_phase = publish_phase_with g_score"

text \<open>The client identifier of lines 125 to 130.\<close>

definition client_id :: "args \<Rightarrow> string" where
  "client_id a =
     ''projects/'' @ project_id a @ ''/locations/'' @ cloud_region a
       @ ''/registries/'' @ registry_id a @ ''/devices/'' @ device_id a"

text \<open>
  \<open>main\<close>, lines 119 to 231. An exception anywhere leaves \<open>main\<close> at once; there is no
  \<open>try\<close>, so \<open>client.loop_stop()\<close> is reached only when the loop has run to its end.
  As for the loop, the index computation is a parameter and \<open>main\<close> is the instance at
  \<open>g_score\<close>.
\<close>

definition main_with ::
    "(sim_state \<Rightarrow> error + pyval) \<Rightarrow> 'g prng \<Rightarrow> externals \<Rightarrow> args \<Rightarrow> 'g world
       \<Rightarrow> error option \<times> 'g world" where
  "main_with idx P X a w0 =
     (let w1 = emit (NewClient (client_id a)) w0 in
      case create_jwt X (project_id a) (private_key_file a) (algorithm a) w1 of
        (Inl e, w2) \<Rightarrow> (Some e, w2)
      | (Inr password, w2) \<Rightarrow>
          (let w3 = emit (UsernamePwSet ''unused'' password) w2 in
           if \<not> tls_ok X (ca_certs a) then (Some TLSError, w3)
           else
             (let w4 = emit (TlsSet (ca_certs a)) w3 in
              if \<not> connect_ok X (mqtt_bridge_hostname a) (mqtt_bridge_port a)
              then (Some ConnectError, w4)
              else
                (let w5 = emit (Connect (mqtt_bridge_hostname a) (mqtt_bridge_port a)) w4;
                     w6 = emit LoopStart w5;
                     (r, s, w7) = publish_phase_with idx P X a w6
                 in case r of
                      Some e \<Rightarrow> (Some e, w7)
                    | None \<Rightarrow> (None, emit LoopStop w7)))))"

definition main :: "'g prng \<Rightarrow> externals \<Rightarrow> args \<Rightarrow> 'g world \<Rightarrow> error option \<times> 'g world" where
  "main = main_with g_score"

section \<open>Observations on a finished run\<close>

definition publishes :: "'g world \<Rightarrow> event list" where
  "publishes w = filter (\<lambda>e. case e of Publish t p q \<Rightarrow> True | _ \<Rightarrow> False) (events w)"

definition teardowns :: "'g world \<Rightarrow> nat" where
  "teardowns w = length (filter (\<lambda>e. e = LoopStop) (events w))"

text \<open>
  The world after lines 204 to 227 of a tick whose index is \<open>g\<close>: the clock read for the
  timestamp, the record published, the sleep taken.
\<close>

definition publish_and_sleep ::
    "externals \<Rightarrow> args \<Rightarrow> string \<Rightarrow> sim_state \<Rightarrow> pyval \<Rightarrow> 'g world \<Rightarrow> 'g world" where
  "publish_and_sleep X a topic s1 g w1 =
     (let (t, w2) = time_time X w1;
          w3 = emit (Publish topic (make_payload t (device_id a) s1 g) 1) w2
      in emit (Sleep (if message_type a = ''event'' then 1 else 5)) w3)"

text \<open>The events logged since the world \<open>w\<close>, in a later world \<open>r\<close>.\<close>

definition logged_since :: "'g world \<Rightarrow> 'g world \<Rightarrow> event list" where
  "logged_since w r = drop (length (events w)) (events r)"

text \<open>
  The sensor values and the index of a published record: the payload without its
  first two entries, \<open>timestamp\<close> and \<open>device\<close>.
\<close>

definition sensor_values :: "event \<Rightarrow> jval list" where
  "sensor_values e = (case e of Publish t p q \<Rightarrow> map snd (drop 2 p) | _ \<Rightarrow> [])"

text \<open>
  The sensor values and index of the records published since the world \<open>w\<close>, record
  by record.
\<close>

definition published_values :: "'g world \<Rightarrow> 'g world \<Rightarrow> jval list list" where
  "published_values w r =
     map sensor_values
       (filter (\<lambda>e. case e of Publish t p q \<Rightarrow> True | _ \<Rightarrow> False) (logged_since w r))"

text \<open>
  An event without what the clock put into it: a published record loses its first
  entry, \<open>timestamp\<close>; topic, device, sensor values, index and delivery level stay.
\<close>

definition untimed :: "event \<Rightarrow> event" where
  "untimed e = (case e of Publish t p q \<Rightarrow> Publish t (tl p) q | _ \<Rightarrow> e)"

section \<open>A concrete session for evaluation\<close>

text \<open>
  A small injectable pseudo-random source whose \<open>random\<close> stays in the unit interval,
  collaborators that never fail, a clock that advances one second per reading, and
  the command line \<open>--device_id dev-1 --message_type event --num_messages 3\<close>.
\<close>

definition demo_prng :: "nat prng" where
  "demo_prng =
     \<lparr> seed_fn = length,
       random_fn = (\<lambda>g. (real (g mod 4) / 4, Suc g)),
       normalvariate_fn = (\<lambda>mu sigma g. (mu + sigma * (real (g mod 3) - 1), Suc g)) \<rparr>"

definition demo_externals :: externals where
  "demo_externals =
     \<lparr> clock = (\<lambda>k. 1700000000000000 + int k * 1000000),
       read_file = (\<lambda>f. Some ''key''),
       jwt_encode = (\<lambda>c k alg. Some ''jwt''),
       tls_ok = (\<lambda>f. True),
       connect_ok = (\<lambda>h p. True) \<rparr>"

definition demo_args :: args where
  "demo_args =
     \<lparr> project_id = ''proj'', registry_id = ''reg'', device_id = ''dev-1'',
       private_key_file = ''rsa_private.pem'', algorithm = ''RS256'',
       cloud_region = ''us-central1'', ca_certs = ''roots.pem'', num_messages = 3,
       message_type = ''event'', mqtt_bridge_hostname = ''mqtt.googleapis.com'',
       mqtt_bridge_port = 8883 \<rparr>"

definition demo_world :: "nat world" where
  "demo_world = \<lparr> rng = 0, clock_reads = 0, events = [] \<rparr>"

text \<open>The state of that session after the evolution step of its first tick.\<close>

definition demo_tick_state :: sim_state where
  "demo_tick_state =
     \<lparr> simulated_temp = 9999 / 200, simulated_temp_out = 3999 / 100,
       sim_pressure = 50933 / 50, sim_hum = 2489 / 100, sim_hum_out = 113 / 5,
       sim_uv = 991 / 100, sim_irr = 1339 / 100, sim_smoist = 499 / 10,
       sim_co2 = 44241 / 100, sim_ch4 = 199989 / 100, sim_n20 = 4049 / 10,
       sim_cfc = 89991 / 100, temperature_trend = - 1 \<rparr>"

text \<open>
  A source within the contract of \<open>random.random()\<close> whose first draw after seeding is
  the largest double below 1.
\<close>

definition edge_prng :: "nat prng" where
  "edge_prng =
     \<lparr> seed_fn = (\<lambda>dev. 0),
       random_fn = (\<lambda>g. (if g = 0 then 1 - 1 / 2 ^ 53 else 0, Suc g)),
       normalvariate_fn = (\<lambda>mu sigma g. (mu, Suc g)) \<rparr>"

text \<open>A source whose every draw is the mean, with the coin always positive.\<close>

definition mean_prng :: "unit prng" where
  "mean_prng =
     \<lparr> seed_fn = (\<lambda>dev. ()),
       random_fn = (\<lambda>g. (3/4, g)),
       normalvariate_fn = (\<lambda>mu sigma g. (mu, g)) \<rparr>"

text \<open>
  Collaborators whose clock jumps two hours ahead after the token has been built,
  and collaborators whose clock stands still.
\<close>

definition late_externals :: externals where
  "late_externals =
     demo_externals \<lparr> clock :=
       (\<lambda>k. if k < 2 then 1700000000000000 else 1700000000000000 + 2 * minutes60) \<rparr>"

definition frozen_externals :: externals where
  "frozen_externals = demo_externals \<lparr> clock := (\<lambda>k. 1700000000000000) \<rparr>"

section \<open>The evolution step as the specification words it\<close>

text \<open>
  For comparison with \<open>advance\<close>: the quantities as an ordered list, each with its
  kind; a temperature moves by the trend times a Normal(0.01, 0.005) draw, any other
  quantity by a coin's sign times a Normal(0.1, 0.01) draw, outdoor humidity by the
  negated coin; nothing is clamped.
\<close>

datatype quantity_kind = Temperature | HumidityOut | Other

fun perturbation_spec :: "'g prng \<Rightarrow> int \<Rightarrow> quantity_kind \<Rightarrow> 'g \<Rightarrow> real \<times> 'g" where
  "perturbation_spec P trend Temperature g =
     (let (d, g1) = normalvariate_fn P (1/100) (5/1000) g in (of_int trend * d, g1))"
| "perturbation_spec P trend Other g =
     (let (u, g1) = random_fn P g;
          (d, g2) = normalvariate_fn P (1/10) (1/100) g1
      in ((if u > 1/2 then 1 else - 1) * d, g2))"
| "perturbation_spec P trend HumidityOut g =
     (let (u, g1) = random_fn P g;
          (d, g2) = normalvariate_fn P (1/10) (1/100) g1
      in (- (if u > 1/2 then 1 else - 1) * d, g2))"

fun advance_spec ::
    "'g prng \<Rightarrow> int \<Rightarrow> (quantity_kind \<times> real) list \<Rightarrow> 'g
       \<Rightarrow> (quantity_kind \<times> real) list \<times> 'g" where
  "advance_spec P trend [] g = ([], g)"
| "advance_spec P trend ((k, v) # qs) g =
     (let (d, g1) = perturbation_spec P trend k g;
          (qs', g2) = advance_spec P trend qs g1
      in ((k, v + d) # qs', g2))"

definition quantities :: "sim_state \<Rightarrow> (quantity_kind \<times> real) list" where
  "quantities s =
     [(Temperature, simulated_temp s), (Temperature, simulated_temp_out s),
      (Other, sim_pressure s), (Other, sim_hum s), (HumidityOut, sim_hum_out s),
      (Other, sim_uv s), (Other, sim_irr s), (Other, sim_smoist s),
      (Other, sim_co2 s), (Other, sim_ch4 s), (Other, sim_n20 s), (Other, sim_cfc s)]"

section \<open>Initialisation as the specification words it\<close>

text \<open>
  For comparison with \<open>init_sim\<close>: twelve pairs of base and range, one per quantity
  in the order of \<open>quantities\<close>, and each quantity set to its base plus a uniform draw
  scaled by its range, in double arithmetic, the draws taken one after the other from
  the seeded generator.
\<close>

definition initial_constants :: "(real \<times> real) list" where
  "initial_constants =
     [(45, 20), (35, 10), (1000, 25), (25, 30), (15, 30), (5, 10), (6, 10), (50, 10),
      (430, 50), (1900, 200), (330, 100), (900, 300)]"

fun init_spec :: "'g prng \<Rightarrow> (real \<times> real) list \<Rightarrow> 'g \<Rightarrow> real list \<times> 'g" where
  "init_spec P [] g = ([], g)"
| "init_spec P ((b, r) # cs) g =
     (let (u, g1) = random_fn P g;
          (vs, g2) = init_spec P cs g1
      in (round_double (b + round_double (u * r)) # vs, g2))"

text \<open>Each quantity from its base up to and including its base plus range.\<close>

definition initial_range :: "sim_state \<Rightarrow> bool" where
  "initial_range s =
     (45 \<le> simulated_temp s \<and> simulated_temp s \<le> 65
      \<and> 35 \<le> simulated_temp_out s \<and> simulated_temp_out s \<le> 45
      \<and> 1000 \<le> sim_pressure s \<and> sim_pressure s \<le> 1025
      \<and> 25 \<le> sim_hum s \<and> sim_hum s \<le> 55
      \<and> 15 \<le> sim_hum_out s \<and> sim_hum_out s \<le> 45
      \<and> 5 \<le> sim_uv s \<and> sim_uv s \<le> 15
      \<and> 6 \<le> sim_irr s \<and> sim_irr s \<le> 16
      \<and> 50 \<le> sim_smoist s \<and> sim_smoist s \<le> 60
      \<and> 430 \<le> sim_co2 s \<and> sim_co2 s \<le> 480
      \<and> 1900 \<le> sim_ch4 s \<and> sim_ch4 s \<le> 2100
      \<and> 330 \<le> sim_n20 s \<and> sim_n20 s \<le> 430
      \<and> 900 \<le> sim_cfc s \<and> sim_cfc s \<le> 1200)"

section \<open>The contract of \<open>random.normalvariate\<close>\<close>

text \<open>
  \<open>random.normalvariate(mu, sigma)\<close> returns \<open>mu + z * sigma\<close> for a \<open>z\<close> its rejection loop
  has accepted, which bounds \<open>|z|\<close> by twice the square root of \<open>-ln(2^-53)\<close>, below 13.
\<close>

definition normal_bounded :: "'g prng \<Rightarrow> bool" where
  "normal_bounded P =
     (\<forall>mu sigma g. 0 \<le> sigma \<longrightarrow> \<bar>fst (normalvariate_fn P mu sigma g) - mu\<bar> \<le> 13 * sigma)"

section \<open>The index as the specification words it\<close>

text \<open>
  The calculator of the specification, for running the loop with an index computation
  that returns: the arithmetic formula, and a division error on a zero divisor.
\<close>

definition spec_compute :: "sim_state \<Rightarrow> error + pyval" where
  "spec_compute s =
     (if sim_pressure s + (sim_hum s - sim_hum_out s) = 0 then Inl ZeroDivisionError
      else Inr (PyFloat (index_spec s)))"

section \<open>Facts about rounding\<close>

text \<open>
  Rounding stays on the same side of an integer, for values of magnitude below
  \<open>2^53\<close>: there every integer is a multiple of the rounding step.
\<close>

lemma round_even_le: "y \<le> of_int M \<Longrightarrow> round_even y \<le> M"
proof -
  assume h: "y \<le> of_int M"
  then have f: "\<lfloor>y\<rfloor> \<le> M" by (simp add: floor_le_iff)
  show ?thesis
  proof (cases "y = of_int \<lfloor>y\<rfloor>")
    case True
    then show ?thesis using f by (simp add: round_even_def Let_def)
  next
    case False
    with h have "of_int \<lfloor>y\<rfloor> < (of_int M :: real)"
      using of_int_floor_le [of y] by linarith
    then have "\<lfloor>y\<rfloor> + 1 \<le> M" by simp
    with f show ?thesis by (simp add: round_even_def Let_def)
  qed
qed

lemma round_even_ge: "of_int M \<le> y \<Longrightarrow> M \<le> round_even y"
proof -
  assume "of_int M \<le> y"
  then have "M \<le> \<lfloor>y\<rfloor>" by (simp add: le_floor_iff)
  then show ?thesis by (simp add: round_even_def Let_def)
qed

lemma binade_le: "\<bar>x\<bar> < 2 ^ 53 \<Longrightarrow> binade x \<le> 52"
proof (cases "1 \<le> \<bar>x\<bar>")
  case True
  assume "\<bar>x\<bar> < 2 ^ 53"
  then have "\<lfloor>\<bar>x\<bar>\<rfloor> < 2 ^ 53" by (simp add: floor_less_iff)
  then have "bitlen \<lfloor>\<bar>x\<bar>\<rfloor> \<le> 53" by (simp add: bitlen_le_iff_power)
  with True show ?thesis by (simp add: binade_def)
next
  case False
  then show ?thesis using bitlen_nonneg [of "\<lceil>1 / \<bar>x\<bar>\<rceil> - 1"] by (simp add: binade_def)
qed

lemma round_double_scaled:
  assumes "\<bar>x\<bar> < 2 ^ 53"
  shows "round_double x =
           of_int (round_even (x * 2 ^ nat (52 - binade x))) / 2 ^ nat (52 - binade x)"
proof (cases "x = 0")
  case True
  then show ?thesis by (simp add: round_double_def round_even_def)
next
  case False
  from binade_le [OF assms] have "pow2 (binade x - 52) = 1 / 2 ^ nat (52 - binade x)"
    by (cases "binade x = 52") (simp_all add: pow2_def)
  with False show ?thesis by (simp add: round_double_def)
qed

lemma round_double_le_int:
  assumes "\<bar>x\<bar> < 2 ^ 53" and "x \<le> of_int N"
  shows "round_double x \<le> of_int N"
proof -
  let ?k = "nat (52 - binade x)"
  from assms(2) have "x * 2 ^ ?k \<le> of_int (N * 2 ^ ?k)" by simp
  then have "round_even (x * 2 ^ ?k) \<le> N * 2 ^ ?k" by (rule round_even_le)
  then have "(of_int (round_even (x * 2 ^ ?k)) :: real) \<le> of_int (N * 2 ^ ?k)"
    by (simp only: of_int_le_iff)
  then show ?thesis
    by (simp add: round_double_scaled [OF assms(1)] field_simps)
qed

lemma round_double_ge_int:
  assumes "\<bar>x\<bar> < 2 ^ 53" and "of_int N \<le> x"
  shows "of_int N \<le> round_double x"
proof -
  let ?k = "nat (52 - binade x)"
  from assms(2) have "of_int (N * 2 ^ ?k) \<le> x * 2 ^ ?k" by simp
  then have "N * 2 ^ ?k \<le> round_even (x * 2 ^ ?k)" by (rule round_even_ge)
  then have "(of_int (N * 2 ^ ?k) :: real) \<le> of_int (round_even (x * 2 ^ ?k))"
    by (simp only: of_int_le_iff)
  then show ?thesis
    by (simp add: round_double_scaled [OF assms(1)] field_simps)
qed

lemma binade_bounds:
  assumes "x \<noteq> 0"
  shows "pow2 (binade x) \<le> \<bar>x\<bar> \<and> \<bar>x\<bar> < pow2 (binade x + 1)"
proof (cases "1 \<le> \<bar>x\<bar>")
  case True
  let ?m = "\<lfloor>\<bar>x\<bar>\<rfloor>"
  from True have m: "0 < ?m" by simp
  from bitlen_bounds [OF m] have b: "2 ^ nat (bitlen ?m - 1) \<le> ?m" "?m < 2 ^ nat (bitlen ?m)"
    by simp_all
  from m have bl: "1 \<le> bitlen ?m" by (simp add: bitlen_alt_def)
  have "(2::real) ^ nat (bitlen ?m - 1) \<le> of_int ?m"
    using b(1) by (metis of_int_le_iff of_int_numeral of_int_power)
  then have lo: "(2::real) ^ nat (bitlen ?m - 1) \<le> \<bar>x\<bar>"
    using of_int_floor_le [of "\<bar>x\<bar>"] by linarith
  from b(2) have "?m + 1 \<le> 2 ^ nat (bitlen ?m)" by simp
  then have "(of_int (?m + 1) :: real) \<le> 2 ^ nat (bitlen ?m)"
    by (metis of_int_le_iff of_int_numeral of_int_power)
  then have "of_int ?m + 1 \<le> (2::real) ^ nat (bitlen ?m)" by simp
  then have hi: "\<bar>x\<bar> < 2 ^ nat (bitlen ?m)"
    using real_of_int_floor_add_one_gt [of "\<bar>x\<bar>"] by linarith
  from True bl lo hi show ?thesis
    by (simp add: binade_def pow2_def)
next
  case False
  let ?y = "1 / \<bar>x\<bar>"
  let ?m = "\<lceil>?y\<rceil> - 1"
  from False assms have x: "0 < \<bar>x\<bar>" "\<bar>x\<bar> < 1" by simp_all
  then have y: "1 < ?y" by simp
  then have m: "0 < ?m" by (simp add: less_ceiling_iff)
  from bitlen_bounds [OF m] have b: "2 ^ nat (bitlen ?m - 1) \<le> ?m" "?m < 2 ^ nat (bitlen ?m)"
    by simp_all
  from m have bl: "1 \<le> bitlen ?m" by (simp add: bitlen_alt_def)
  have "(2::real) ^ nat (bitlen ?m - 1) \<le> of_int ?m"
    using b(1) by (metis of_int_le_iff of_int_numeral of_int_power)
  moreover have "of_int ?m < ?y" using ceiling_correct [of ?y] by linarith
  ultimately have lo: "(2::real) ^ nat (bitlen ?m - 1) < ?y" by linarith
  from b(2) have "?m + 1 \<le> 2 ^ nat (bitlen ?m)" by simp
  then have "(of_int (?m + 1) :: real) \<le> 2 ^ nat (bitlen ?m)"
    by (metis of_int_le_iff of_int_numeral of_int_power)
  then have "of_int \<lceil>?y\<rceil> \<le> (2::real) ^ nat (bitlen ?m)" by simp
  then have hi: "?y \<le> 2 ^ nat (bitlen ?m)"
    using le_of_int_ceiling [of ?y] by linarith
  from hi x have a: "1 / 2 ^ nat (bitlen ?m) \<le> \<bar>x\<bar>"
    by (simp add: field_simps)
  from lo x have c: "\<bar>x\<bar> < 1 / 2 ^ nat (bitlen ?m - 1)"
    by (simp add: field_simps)
  have e: "nat (bitlen ?m - 1) = nat (bitlen ?m) - 1" by simp
  from False bl a c show ?thesis
    by (auto simp: binade_def pow2_def nat_diff_distrib)
qed

lemma round_double_0 [simp]: "round_double 0 = 0"
  by (simp add: round_double_def)

section \<open>Basic facts about the model\<close>

text \<open>
  The index expression never yields a value: the right operand of \<open>^\<close> is a float, so
  the operator raises TypeError unless \<open>math.sqrt\<close> has already raised ValueError.
  The equation also serves as the code equation of \<open>g_score\<close>, since the real square
  root has none.
\<close>

lemma g_score_raises [code]:
  "g_score s =
     Inl (if sim_ch4 s + sim_co2 s + sim_n20 s + sim_cfc s < 0 then ValueError else TypeError)"
  by (simp add: g_score_def math_sqrt_def)

lemma publish_loop_nil: "publish_loop P X a topic [] s w = (None, s, w)"
  by (simp add: publish_loop_def)

lemma publish_loop_step:
  "publish_loop P X a topic (i # rest) s w =
     (case g_score (fst (advance P s (rng w))) of Inl e \<Rightarrow> Some e | Inr g \<Rightarrow> None,
      fst (advance P s (rng w)), w\<lparr> rng := snd (advance P s (rng w)) \<rparr>)"
  by (simp add: publish_loop_def g_score_raises split: prod.splits)

lemma publish_loop_outcome:
  "publish_loop P X a topic xs s w =
     (case xs of [] \<Rightarrow> (None, s, w)
      | i # rest \<Rightarrow>
          (case g_score (fst (advance P s (rng w))) of Inl e \<Rightarrow> Some e | Inr g \<Rightarrow> None,
           fst (advance P s (rng w)), w\<lparr> rng := snd (advance P s (rng w)) \<rparr>))"
  by (cases xs) (simp_all add: publish_loop_step publish_loop_nil)

lemma publish_phase_unfold:
  "publish_phase P X a w =
     (let sub_topic = (if message_type a = ''event'' then ''events'' else ''state'');
          mqtt_topic = ''/devices/'' @ device_id a @ ''/'' @ sub_topic;
          (s0, g0) = init_sim P (device_id a)
      in publish_loop P X a mqtt_topic [1..num_messages a] s0 (w\<lparr> rng := g0 \<rparr>))"
  unfolding publish_phase_def publish_phase_with_def publish_loop_def by (rule refl)

text \<open>With at least one message asked for, the publish phase ends in an exception.\<close>

lemma publish_phase_raises:
  assumes "1 \<le> num_messages a"
  shows "\<exists>e. fst (publish_phase P X a w) = Some e"
proof -
  from assms have "[1..num_messages a] = 1 # [2..num_messages a]"
    by (simp add: upto_rec1)
  then show ?thesis
    by (simp add: publish_phase_unfold publish_loop_step g_score_raises Let_def
          split: prod.splits)
qed

lemma create_jwt_events: "events (snd (create_jwt X proj kf alg w)) = events w"
  by (simp add: create_jwt_def token_claims_def utcnow_def split: option.splits)

lemma advance_trend: "temperature_trend (fst (advance P s g)) = temperature_trend s"
  by (simp add: advance_def split: prod.splits)

lemma advance_trend_eq:
  "advance P s g = (s', g') \<Longrightarrow> temperature_trend s' = temperature_trend s"
  using advance_trend [of P s g] by simp

lemma sim_run_trend: "temperature_trend (fst (sim_run P n sg)) = temperature_trend (fst sg)"
  by (induction n arbitrary: sg) (simp_all add: advance_trend)

lemma publish_loop_with_trend:
  "temperature_trend (fst (snd (publish_loop_with idx P X a topic xs s w))) = temperature_trend s"
  by (induction xs arbitrary: s w)
     (auto simp: Let_def dest: advance_trend_eq split: prod.splits sum.splits)

lemma publish_loop_trend:
  "temperature_trend (fst (snd (publish_loop P X a topic xs s w))) = temperature_trend s"
  by (simp add: publish_loop_def publish_loop_with_trend)

lemma init_sim_trend:
  "temperature_trend (fst (init_sim P dev)) =
     (if 1/2 < fst (random_fn P (((\<lambda>g. snd (random_fn P g)) ^^ 12) (seed_fn P dev)))
      then 1 else - 1)"
  by (simp add: init_sim_def coin_def uniform_from_def eval_nat_numeral split: prod.splits)

lemma advance_temps:
  "simulated_temp (fst (advance P s g)) =
     simulated_temp s
       + of_int (temperature_trend s) * fst (normalvariate_fn P (1/100) (5/1000) g)"
  "simulated_temp_out (fst (advance P s g)) =
     simulated_temp_out s
       + of_int (temperature_trend s)
           * fst (normalvariate_fn P (1/100) (5/1000)
                   (snd (normalvariate_fn P (1/100) (5/1000) g)))"
  by (simp_all add: advance_def trend_step_def split: prod.splits)

text \<open>The concrete session, evaluated: initial state, first evolution step, whole run.\<close>

lemmas round_double_eval =
  round_double_def binade_def pow2_def round_even_def compute_bitlen Let_def

lemma demo_init:
  "init_sim demo_prng ''dev-1'' =
     (\<lparr> simulated_temp = 50, simulated_temp_out = 40, sim_pressure = 4075 / 4,
        sim_hum = 25, sim_hum_out = 45 / 2, sim_uv = 10, sim_irr = 27 / 2,
        sim_smoist = 50, sim_co2 = 885 / 2, sim_ch4 = 2000, sim_n20 = 405,
        sim_cfc = 900, temperature_trend = - 1 \<rparr>, 18)"
  by (simp add: init_sim_def uniform_from_def coin_def demo_prng_def round_double_eval)

lemma demo_advance:
  "advance demo_prng
     \<lparr> simulated_temp = 50, simulated_temp_out = 40, sim_pressure = 4075 / 4,
       sim_hum = 25, sim_hum_out = 45 / 2, sim_uv = 10, sim_irr = 27 / 2,
       sim_smoist = 50, sim_co2 = 885 / 2, sim_ch4 = 2000, sim_n20 = 405,
       sim_cfc = 900, temperature_trend = - 1 \<rparr> 18 = (demo_tick_state, 40)"
  by (simp add: advance_def trend_step_def coin_step_def coin_def demo_prng_def
        demo_tick_state_def)

lemma demo_tick_raises: "g_score demo_tick_state = Inl TypeError"
  by (simp add: g_score_raises demo_tick_state_def)

lemma main_unfold:
  "main P X a w0 =
     (let w1 = emit (NewClient (client_id a)) w0 in
      case create_jwt X (project_id a) (private_key_file a) (algorithm a) w1 of
        (Inl e, w2) \<Rightarrow> (Some e, w2)
      | (Inr password, w2) \<Rightarrow>
          (let w3 = emit (UsernamePwSet ''unused'' password) w2 in
           if \<not> tls_ok X (ca_certs a) then (Some TLSError, w3)
           else
             (let w4 = emit (TlsSet (ca_certs a)) w3 in
              if \<not> connect_ok X (mqtt_bridge_hostname a) (mqtt_bridge_port a)
              then (Some ConnectError, w4)
              else
                (let w5 = emit (Connect (mqtt_bridge_hostname a) (mqtt_bridge_port a)) w4;
                     w6 = emit LoopStart w5;
                     (r, s, w7) = publish_phase P X a w6
                 in case r of
                      Some e \<Rightarrow> (Some e, w7)
                    | None \<Rightarrow> (None, emit LoopStop w7)))))"
  unfolding main_def main_with_def publish_phase_def by (rule refl)

lemma demo_main:
  "main demo_prng demo_externals demo_args demo_world =
     (Some TypeError,
      \<lparr> rng = 40, clock_reads = 2,
        events =
          [NewClient ''projects/proj/locations/us-central1/registries/reg/devices/dev-1'',
           UsernamePwSet ''unused'' ''jwt'', TlsSet ''roots.pem'',
           Connect ''mqtt.googleapis.com'' 8883, LoopStart] \<rparr>)"
  by (simp add: main_unfold create_jwt_def token_claims_def utcnow_def emit_def
        publish_phase_unfold publish_loop_step demo_tick_raises client_id_def
        demo_externals_def demo_args_def demo_world_def upto.simps demo_init demo_advance)

section \<open>Facts about the loop, whatever the index computation\<close>

lemma publish_and_sleep_rng: "rng (publish_and_sleep X a topic s1 g w1) = rng w1"
  by (simp add: publish_and_sleep_def time_time_def emit_def Let_def)

lemma publish_and_sleep_events:
  "events (publish_and_sleep X a topic s1 g w1) =
     events w1 @ [Publish topic (make_payload (fst (time_time X w1)) (device_id a) s1 g) 1,
                  Sleep (if message_type a = ''event'' then 1 else 5)]"
  by (simp add: publish_and_sleep_def time_time_def emit_def Let_def)

lemma loop_step_fail:
  assumes "advance P s (rng w) = (s1, g1)" and "idx s1 = Inl e"
  shows "publish_loop_with idx P X a topic (i # rest) s w = (Some e, s1, w\<lparr> rng := g1 \<rparr>)"
  using assms by simp

lemma loop_step_ok:
  assumes "advance P s (rng w) = (s1, g1)" and "idx s1 = Inr g"
  shows "publish_loop_with idx P X a topic (i # rest) s w =
           publish_loop_with idx P X a topic rest s1
             (publish_and_sleep X a topic s1 g (w\<lparr> rng := g1 \<rparr>))"
  using assms by (simp add: publish_and_sleep_def Let_def split: prod.splits)

declare publish_loop_with.simps(2) [simp del]

text \<open>What the loop logs: publishes and sleeps after what was there, never a teardown.\<close>

lemma publish_loop_with_events:
  "\<exists>evs. events (snd (snd (publish_loop_with idx P X a topic xs s w))) = events w @ evs
         \<and> LoopStop \<notin> set evs"
proof (induction xs arbitrary: s w)
  case Nil
  then show ?case by simp
next
  case (Cons i rest)
  obtain s1 g1 where adv: "advance P s (rng w) = (s1, g1)" by fastforce
  show ?case
  proof (cases "idx s1")
    case (Inl e)
    then show ?thesis by (simp add: loop_step_fail [where idx = idx, OF adv])
  next
    case (Inr g)
    let ?w4 = "publish_and_sleep X a topic s1 g (w\<lparr> rng := g1 \<rparr>)"
    from Cons.IH [of s1 ?w4] obtain evs where
      evs: "events (snd (snd (publish_loop_with idx P X a topic rest s1 ?w4))) = events ?w4 @ evs"
        "LoopStop \<notin> set evs" by blast
    then show ?thesis
      by (simp add: loop_step_ok [where idx = idx, OF adv Inr] publish_and_sleep_events)
  qed
qed

text \<open>
  The outcome, the simulated state and the generator at the end of the loop depend on
  the generator state at its start only: not on the clock, the other collaborators,
  the arguments or the log.
\<close>

lemma publish_loop_with_state:
  assumes "rng w = rng w'"
  shows "fst (publish_loop_with idx P X a topic xs s w)
           = fst (publish_loop_with idx P X' a' topic' xs s w')
       \<and> fst (snd (publish_loop_with idx P X a topic xs s w))
           = fst (snd (publish_loop_with idx P X' a' topic' xs s w'))
       \<and> rng (snd (snd (publish_loop_with idx P X a topic xs s w)))
           = rng (snd (snd (publish_loop_with idx P X' a' topic' xs s w')))"
  using assms
proof (induction xs arbitrary: s w w')
  case Nil
  then show ?case by simp
next
  case (Cons i rest)
  obtain s1 g1 where adv: "advance P s (rng w) = (s1, g1)" by fastforce
  with Cons.prems have adv': "advance P s (rng w') = (s1, g1)" by simp
  show ?case
  proof (cases "idx s1")
    case (Inl e)
    then show ?thesis by (simp add: loop_step_fail [where idx = idx, OF adv] loop_step_fail [where idx = idx, OF adv'])
  next
    case (Inr g)
    show ?thesis
      unfolding loop_step_ok [where idx = idx, OF adv Inr] loop_step_ok [where idx = idx, OF adv' Inr]
      by (rule Cons.IH) (simp add: publish_and_sleep_rng)
  qed
qed

lemma tl_make_payload: "tl (make_payload t dev s g) = tl (make_payload t' dev s g)"
  by (simp add: make_payload_def)

text \<open>
  What the loop logs depends, besides, on the topic, the device id and the message
  type; the clock reaches the timestamp field only.
\<close>

lemma publish_loop_with_log:
  assumes "rng w = rng w'" and "device_id a = device_id a'"
    and "message_type a = message_type a'"
  shows "map untimed (logged_since w (snd (snd (publish_loop_with idx P X a topic xs s w))))
           = map untimed
               (logged_since w' (snd (snd (publish_loop_with idx P X' a' topic xs s w'))))"
proof -
  have "\<exists>evs evs'.
          events (snd (snd (publish_loop_with idx P X a topic xs s w))) = events w @ evs
          \<and> events (snd (snd (publish_loop_with idx P X' a' topic xs s w'))) = events w' @ evs'
          \<and> map untimed evs = map untimed evs'"
    using assms(1)
  proof (induction xs arbitrary: s w w')
    case Nil
    then show ?case by simp
  next
    case (Cons i rest)
    obtain s1 g1 where adv: "advance P s (rng w) = (s1, g1)" by fastforce
    with Cons.prems have adv': "advance P s (rng w') = (s1, g1)" by simp
    show ?case
    proof (cases "idx s1")
      case (Inl e)
      then show ?thesis by (simp add: loop_step_fail [where idx = idx, OF adv] loop_step_fail [where idx = idx, OF adv'])
    next
      case (Inr g)
      let ?v = "publish_and_sleep X a topic s1 g (w\<lparr> rng := g1 \<rparr>)"
      let ?v' = "publish_and_sleep X' a' topic s1 g (w'\<lparr> rng := g1 \<rparr>)"
      have "rng ?v = rng ?v'" by (simp add: publish_and_sleep_rng)
      from Cons.IH [OF this, of s1] obtain evs evs' where
        e: "events (snd (snd (publish_loop_with idx P X a topic rest s1 ?v))) = events ?v @ evs"
           "events (snd (snd (publish_loop_with idx P X' a' topic rest s1 ?v'))) = events ?v' @ evs'"
           "map untimed evs = map untimed evs'"
        by blast
      have u: "untimed (Publish topic
                 (make_payload (fst (time_time X (w\<lparr> rng := g1 \<rparr>))) (device_id a) s1 g) 1)
             = untimed (Publish topic
                 (make_payload (fst (time_time X' (w'\<lparr> rng := g1 \<rparr>))) (device_id a') s1 g) 1)"
        using tl_make_payload [of "fst (time_time X (w\<lparr> rng := g1 \<rparr>))" "device_id a" s1 g
            "fst (time_time X' (w'\<lparr> rng := g1 \<rparr>))"]
        by (simp add: untimed_def assms(2))
      show ?thesis
        unfolding loop_step_ok [where idx = idx, OF adv Inr] loop_step_ok [where idx = idx, OF adv' Inr]
        using e u by (simp add: publish_and_sleep_events assms(3))
    qed
  qed
  then show ?thesis by (auto simp: logged_since_def)
qed

text \<open>The loop ends on the trajectory of evolution steps from where it started.\<close>

lemma publish_loop_with_sim_run:
  "\<exists>k\<le>length xs.
      (fst (snd (publish_loop_with idx P X a topic xs s w)),
       rng (snd (snd (publish_loop_with idx P X a topic xs s w)))) = sim_run P k (s, rng w)"
proof (induction xs arbitrary: s w)
  case Nil
  then show ?case by simp
next
  case (Cons i rest)
  obtain s1 g1 where adv: "advance P s (rng w) = (s1, g1)" by fastforce
  show ?case
  proof (cases "idx s1")
    case (Inl e)
    have "sim_run P (Suc 0) (s, rng w) = (s1, g1)" by (simp add: adv)
    then show ?thesis
      unfolding loop_step_fail [where idx = idx, OF adv Inl]
      by (intro exI [of _ "Suc 0"]) simp
  next
    case (Inr g)
    let ?v = "publish_and_sleep X a topic s1 g (w\<lparr> rng := g1 \<rparr>)"
    from Cons.IH [of s1 ?v] obtain k where
      k: "k \<le> length rest"
         "(fst (snd (publish_loop_with idx P X a topic rest s1 ?v)),
           rng (snd (snd (publish_loop_with idx P X a topic rest s1 ?v)))) = sim_run P k (s1, rng ?v)"
      by blast
    have "sim_run P (Suc k) (s, rng w) = sim_run P k (s1, g1)" by (simp add: adv)
    with k show ?thesis
      unfolding loop_step_ok [where idx = idx, OF adv Inr]
      by (intro exI [of _ "Suc k"]) (simp add: publish_and_sleep_rng)
  qed
qed

lemma publish_and_sleep_publishes:
  "length (publishes (publish_and_sleep X a topic s1 g w1)) = Suc (length (publishes w1))"
  by (simp add: publishes_def publish_and_sleep_events)

lemma publishes_rng_update: "publishes (w\<lparr> rng := g \<rparr>) = publishes w"
  by (simp add: publishes_def)

text \<open>With an index computation that always returns, every tick publishes.\<close>

lemma publish_loop_with_count:
  assumes "\<And>s. \<exists>g. idx s = Inr g"
  shows "fst (publish_loop_with idx P X a topic xs s w) = None
       \<and> length (publishes (snd (snd (publish_loop_with idx P X a topic xs s w))))
           = length (publishes w) + length xs"
proof (induction xs arbitrary: s w)
  case Nil
  then show ?case by simp
next
  case (Cons i rest)
  obtain s1 g1 where adv: "advance P s (rng w) = (s1, g1)" by fastforce
  from assms obtain g where g: "idx s1 = Inr g" by blast
  show ?case
    unfolding loop_step_ok [where idx = idx, OF adv g]
    by (simp add: Cons.IH publish_and_sleep_publishes publishes_rng_update)
qed

section \<open>Facts about the publish phase, whatever the index computation\<close>

lemma publish_phase_with_events:
  "\<exists>evs. events (snd (snd (publish_phase_with idx P X a w))) = events w @ evs
         \<and> LoopStop \<notin> set evs"
proof -
  obtain s0 g0 where i: "init_sim P (device_id a) = (s0, g0)" by fastforce
  show ?thesis
    using publish_loop_with_events [of idx P X a _ "[1..num_messages a]" s0 "w\<lparr> rng := g0 \<rparr>"]
    by (simp add: publish_phase_with_def i Let_def)
qed

lemma publish_phase_with_state:
  assumes "device_id a = device_id a'" and "num_messages a = num_messages a'"
  shows "fst (publish_phase_with idx P X a w) = fst (publish_phase_with idx P X' a' w')
       \<and> fst (snd (publish_phase_with idx P X a w))
           = fst (snd (publish_phase_with idx P X' a' w'))
       \<and> rng (snd (snd (publish_phase_with idx P X a w)))
           = rng (snd (snd (publish_phase_with idx P X' a' w')))"
proof -
  obtain s0 g0 where i: "init_sim P (device_id a) = (s0, g0)" by fastforce
  have r: "rng (w\<lparr> rng := g0 \<rparr>) = rng (w'\<lparr> rng := g0 \<rparr>)" by simp
  show ?thesis
    using publish_loop_with_state [OF r, of idx P X a _ "[1..num_messages a]" s0 X' a']
    by (simp add: publish_phase_with_def i assms [symmetric] Let_def)
qed

lemma publish_phase_with_log:
  assumes "device_id a = device_id a'" and "num_messages a = num_messages a'"
    and "message_type a = message_type a'"
  shows "map untimed (logged_since w (snd (snd (publish_phase_with idx P X a w))))
           = map untimed (logged_since w' (snd (snd (publish_phase_with idx P X' a' w'))))"
proof -
  obtain s0 g0 where i: "init_sim P (device_id a) = (s0, g0)" by fastforce
  have r: "rng (w\<lparr> rng := g0 \<rparr>) = rng (w'\<lparr> rng := g0 \<rparr>)" by simp
  have l: "logged_since (w\<lparr> rng := g0 \<rparr>) = logged_since w"
    "logged_since (w'\<lparr> rng := g0 \<rparr>) = logged_since w'"
    by (simp_all add: logged_since_def fun_eq_iff)
  show ?thesis
    using publish_loop_with_log [OF r assms(1) assms(3), of idx P X _ "[1..num_messages a]" s0 X']
    by (simp add: publish_phase_with_def i assms [symmetric] Let_def l)
qed

lemma publish_phase_with_sim_run:
  "\<exists>k\<le>nat (num_messages a).
      (fst (snd (publish_phase_with idx P X a w)),
       rng (snd (snd (publish_phase_with idx P X a w)))) = sim_run P k (init_sim P (device_id a))"
proof -
  obtain s0 g0 where i: "init_sim P (device_id a) = (s0, g0)" by fastforce
  show ?thesis
    using publish_loop_with_sim_run [of "[1..num_messages a]" idx P X a _ s0 "w\<lparr> rng := g0 \<rparr>"]
    by (simp add: publish_phase_with_def i Let_def)
qed

lemma untimed_is_publish:
  "(case untimed e of Publish t p q \<Rightarrow> True | _ \<Rightarrow> False)
     = (case e of Publish t p q \<Rightarrow> True | _ \<Rightarrow> False)"
  by (cases e) (simp_all add: untimed_def)

lemma publishes_untimed:
  fixes r r' :: "'g world"
  assumes "map untimed (events r) = map untimed (events r')"
  shows "length (publishes r) = length (publishes r')"
proof -
  let ?p = "\<lambda>e. case e of Publish t p q \<Rightarrow> True | _ \<Rightarrow> False"
  have k: "length (publishes v) = length (filter ?p (map untimed (events v)))"
    for v :: "'g world"
    by (simp add: publishes_def filter_map comp_def untimed_is_publish)
  have "length (publishes r) = length (filter ?p (map untimed (events r)))" by (rule k)
  also have "\<dots> = length (filter ?p (map untimed (events r')))" by (simp only: assms)
  also have "\<dots> = length (publishes r')" by (rule k [symmetric])
  finally show ?thesis .
qed

lemma sensor_values_untimed:
  "sensor_values e = (case untimed e of Publish t p q \<Rightarrow> map snd (tl p) | _ \<Rightarrow> [])"
  by (cases e) (simp_all add: sensor_values_def untimed_def drop_Suc numeral_2_eq_2)

lemma map_sensor_values_untimed:
  assumes "map untimed xs = map untimed ys"
  shows "map sensor_values xs = map sensor_values ys"
proof -
  let ?v = "\<lambda>e. case e of Publish t p q \<Rightarrow> map snd (tl p) | _ \<Rightarrow> []"
  have k: "map sensor_values zs = map ?v (map untimed zs)" for zs
    by (simp add: sensor_values_untimed)
  have "map sensor_values xs = map ?v (map untimed xs)" by (rule k)
  also have "\<dots> = map ?v (map untimed ys)" by (simp only: assms)
  also have "\<dots> = map sensor_values ys" by (rule k [symmetric])
  finally show ?thesis .
qed

section \<open>The composite index\<close>

text \<open>
  Claim C1. The composite index of a tick is meant to be the arithmetic formula with
  the temperature difference cubed. The code does not compute it: at the state of the
  first tick of the concrete session (where the formula's divisor is not zero), the
  expression of lines 199 and 200 raises TypeError and so does not yield the value
  of the formula.
\<close>

theorem g_score_type_error:
  "g_score demo_tick_state = Inl TypeError
   \<and> g_score demo_tick_state \<noteq> Inr (PyFloat (index_spec demo_tick_state))
   \<and> sim_pressure demo_tick_state + (sim_hum demo_tick_state - sim_hum_out demo_tick_state)
       = 102095 / 100"
  by (simp add: g_score_raises demo_tick_state_def)

section \<open>The publish count\<close>

text \<open>
  Claim C4. A session asked for three messages is meant to publish three records. The
  concrete session (three messages of type event, no collaborator failing) ends with
  TypeError on its first tick and has published nothing.
\<close>

theorem demo_session_publishes_nothing:
  "num_messages demo_args = 3
   \<and> fst (main demo_prng demo_externals demo_args demo_world) = Some TypeError
   \<and> publishes (snd (main demo_prng demo_externals demo_args demo_world)) = []"
  by (simp add: demo_main publishes_def) (simp add: demo_args_def)

section \<open>The temperature trend\<close>

text \<open>
  Claim C6. The trend sign is fixed once at initialisation, by a single draw (the
  thirteenth after seeding) compared with 0.5, and is +1 or -1. It is the same after
  any number of evolution steps and at the end of the publish loop, and every
  evolution step moves both temperatures by that sign times a Normal(0.01, 0.005)
  draw.
\<close>

theorem temperature_trend_fixed:
  "temperature_trend (fst (init_sim P dev)) =
     (if 1/2 < fst (random_fn P (((\<lambda>g. snd (random_fn P g)) ^^ 12) (seed_fn P dev)))
      then 1 else - 1)
   \<and> temperature_trend (fst (sim_run P n (init_sim P dev)))
       = temperature_trend (fst (init_sim P dev))
   \<and> temperature_trend (fst (snd (publish_loop P X a topic xs s w))) = temperature_trend s
   \<and> simulated_temp (fst (advance P s g)) =
       simulated_temp s
         + of_int (temperature_trend s) * fst (normalvariate_fn P (1/100) (5/1000) g)
   \<and> simulated_temp_out (fst (advance P s g)) =
       simulated_temp_out s
         + of_int (temperature_trend s)
             * fst (normalvariate_fn P (1/100) (5/1000)
                     (snd (normalvariate_fn P (1/100) (5/1000) g)))"
  using init_sim_trend [of P dev] sim_run_trend [of P n "init_sim P dev"]
    publish_loop_trend [of P X a topic xs s w] advance_temps [of P s g]
  by simp

section \<open>The evolution step\<close>

lemma trend_step_spec: "perturbation_spec P t Temperature g = trend_step P t g"
  by (simp add: trend_step_def)

lemma coin_step_spec: "perturbation_spec P t Other g = coin_step P g"
  by (simp add: coin_step_def coin_def case_prod_beta Let_def)

lemma coin_step_spec_neg:
  "perturbation_spec P t HumidityOut g = (- fst (coin_step P g), snd (coin_step P g))"
  by (simp add: coin_step_def coin_def case_prod_beta Let_def)

lemma advance_refines:
  "advance_spec P (temperature_trend s) (quantities s) g =
     (quantities (fst (advance P s g)), snd (advance P s g))"
proof -
  obtain d1 g1 where e1: "trend_step P (temperature_trend s) g = (d1, g1)" by fastforce
  obtain d2 g2 where e2: "trend_step P (temperature_trend s) g1 = (d2, g2)" by fastforce
  obtain d3 g3 where e3: "coin_step P g2 = (d3, g3)" by fastforce
  obtain d4 g4 where e4: "coin_step P g3 = (d4, g4)" by fastforce
  obtain d5 g5 where e5: "coin_step P g4 = (d5, g5)" by fastforce
  obtain d6 g6 where e6: "coin_step P g5 = (d6, g6)" by fastforce
  obtain d7 g7 where e7: "coin_step P g6 = (d7, g7)" by fastforce
  obtain d8 g8 where e8: "coin_step P g7 = (d8, g8)" by fastforce
  obtain d9 g9 where e9: "coin_step P g8 = (d9, g9)" by fastforce
  obtain d10 g10 where e10: "coin_step P g9 = (d10, g10)" by fastforce
  obtain d11 g11 where e11: "coin_step P g10 = (d11, g11)" by fastforce
  obtain d12 g12 where e12: "coin_step P g11 = (d12, g12)" by fastforce
  have adv: "advance P s g =
     (s\<lparr> simulated_temp := simulated_temp s + d1,
         simulated_temp_out := simulated_temp_out s + d2,
         sim_pressure := sim_pressure s + d3,
         sim_hum := sim_hum s + d4,
         sim_hum_out := sim_hum_out s - d5,
         sim_uv := sim_uv s + d6,
         sim_irr := sim_irr s + d7,
         sim_smoist := sim_smoist s + d8,
         sim_co2 := sim_co2 s + d9,
         sim_ch4 := sim_ch4 s + d10,
         sim_n20 := sim_n20 s + d11,
         sim_cfc := sim_cfc s + d12 \<rparr>, g12)"
    unfolding advance_def e1 e2 e3 e4 e5 e6 e7 e8 e9 e10 e11 e12 Let_def prod.case ..
  show ?thesis
    unfolding adv quantities_def
    by (simp add: trend_step_spec coin_step_spec coin_step_spec_neg
        e1 e2 e3 e4 e5 e6 e7 e8 e9 e10 e11 e12 del: perturbation_spec.simps)
qed

lemma mean_advance:
  "advance mean_prng s g =
     (s\<lparr> simulated_temp := simulated_temp s + of_int (temperature_trend s) / 100,
         simulated_temp_out := simulated_temp_out s + of_int (temperature_trend s) / 100,
         sim_pressure := sim_pressure s + 1/10,
         sim_hum := sim_hum s + 1/10,
         sim_hum_out := sim_hum_out s - 1/10,
         sim_uv := sim_uv s + 1/10,
         sim_irr := sim_irr s + 1/10,
         sim_smoist := sim_smoist s + 1/10,
         sim_co2 := sim_co2 s + 1/10,
         sim_ch4 := sim_ch4 s + 1/10,
         sim_n20 := sim_n20 s + 1/10,
         sim_cfc := sim_cfc s + 1/10 \<rparr>, g)"
  by (simp add: advance_def trend_step_def coin_step_def coin_def mean_prng_def)

lemma mean_drift:
  "quantities (fst (sim_run mean_prng n (s, g))) =
     [(Temperature, simulated_temp s + of_int (temperature_trend s) * real n / 100),
      (Temperature, simulated_temp_out s + of_int (temperature_trend s) * real n / 100),
      (Other, sim_pressure s + real n / 10), (Other, sim_hum s + real n / 10),
      (HumidityOut, sim_hum_out s - real n / 10),
      (Other, sim_uv s + real n / 10), (Other, sim_irr s + real n / 10),
      (Other, sim_smoist s + real n / 10), (Other, sim_co2 s + real n / 10),
      (Other, sim_ch4 s + real n / 10), (Other, sim_n20 s + real n / 10),
      (Other, sim_cfc s + real n / 10)]"
proof (induction n arbitrary: s g)
  case 0
  then show ?case by (simp add: quantities_def)
next
  case (Suc n)
  show ?case
    by (simp add: mean_advance Suc.IH) (simp add: field_simps)
qed

text \<open>
  Claim C8. One evolution step is the step the specification describes: the two
  temperatures move by the trend sign times a Normal(0.01, 0.005) draw, every other
  quantity by the sign of its own coin times a Normal(0.1, 0.01) draw, outdoor
  humidity with the coin negated, the draws taken from the generator in source order.
  Nothing clamps a quantity: under a source that always returns the mean with a
  positive coin, \<open>n\<close> steps move every quantity by \<open>n\<close> times its step, without bound.
\<close>

theorem advance_follows_spec:
  "advance_spec P (temperature_trend s) (quantities s) g =
     (quantities (fst (advance P s g)), snd (advance P s g))
   \<and> quantities (fst (sim_run mean_prng n (s, u))) =
     [(Temperature, simulated_temp s + of_int (temperature_trend s) * real n / 100),
      (Temperature, simulated_temp_out s + of_int (temperature_trend s) * real n / 100),
      (Other, sim_pressure s + real n / 10), (Other, sim_hum s + real n / 10),
      (HumidityOut, sim_hum_out s - real n / 10),
      (Other, sim_uv s + real n / 10), (Other, sim_irr s + real n / 10),
      (Other, sim_smoist s + real n / 10), (Other, sim_co2 s + real n / 10),
      (Other, sim_ch4 s + real n / 10), (Other, sim_n20 s + real n / 10),
      (Other, sim_cfc s + real n / 10)]"
  using advance_refines [of P s g] mean_drift [of n s u] by (rule conjI)

section \<open>Token expiry and the publish loop\<close>

text \<open>
  A session whose clock has passed the token's \<open>exp\<close> before the first tick reads it:
  with three messages the session ends in TypeError like any other, with none it
  finishes normally. No run ends in an expiry error.
\<close>

theorem expired_token_counterexample:
  "claim_exp (fst (token_claims late_externals (project_id demo_args)
        (emit (NewClient (client_id demo_args)) demo_world)))
     < clock late_externals 2
   \<and> fst (main demo_prng late_externals demo_args demo_world) = Some TypeError
   \<and> fst (main demo_prng late_externals (demo_args \<lparr> num_messages := 0 \<rparr>) demo_world) = None"
  by (simp add: main_unfold create_jwt_def token_claims_def utcnow_def emit_def
        publish_phase_unfold publish_loop_step publish_loop_nil demo_tick_raises
        client_id_def late_externals_def
        demo_externals_def demo_args_def demo_world_def upto.simps demo_init demo_advance
        minutes60_def)

text \<open>
  Claim C3, as amended. The session makes no expiry check before a publish. Whatever
  the index computation returns, and so also where every tick publishes, the publish
  phase ends alike and logs the same publishes and sleeps whatever the clock (and
  every other collaborator) returns: the clock reaches the timestamp field of a
  record and nothing else. A clock past the token's \<open>exp\<close> changes neither the outcome
  nor the number of records published; the source's own phase is the instance at
  \<open>g_score\<close>.
\<close>

theorem loop_ignores_clock:
  "fst (publish_phase_with idx P X' a w) = fst (publish_phase_with idx P X a w)
   \<and> map untimed (events (snd (snd (publish_phase_with idx P X' a w))))
       = map untimed (events (snd (snd (publish_phase_with idx P X a w))))
   \<and> length (publishes (snd (snd (publish_phase_with idx P X' a w))))
       = length (publishes (snd (snd (publish_phase_with idx P X a w))))
   \<and> fst (publish_phase P X' a w) = fst (publish_phase P X a w)"
proof -
  have st: "fst (publish_phase_with i P X' a w) = fst (publish_phase_with i P X a w)" for i
    using publish_phase_with_state [of a a i P X' w X w] by simp
  from publish_phase_with_events [of idx P X a w] obtain evs where
    e: "events (snd (snd (publish_phase_with idx P X a w))) = events w @ evs" by blast
  from publish_phase_with_events [of idx P X' a w] obtain evs' where
    e': "events (snd (snd (publish_phase_with idx P X' a w))) = events w @ evs'" by blast
  have "map untimed evs' = map untimed evs"
    using publish_phase_with_log [of a a w idx P X' w X] by (simp add: logged_since_def e e')
  then have u: "map untimed (events (snd (snd (publish_phase_with idx P X' a w))))
       = map untimed (events (snd (snd (publish_phase_with idx P X a w))))"
    by (simp add: e e')
  from st [of idx] st [of g_score] u publishes_untimed [OF u] show ?thesis
    by (simp add: publish_phase_def)
qed

section \<open>The claim set of the token\<close>

text \<open>
  With a clock that advances between the two readings, \<open>exp\<close> is not \<open>iat\<close> plus
  sixty minutes.
\<close>

theorem token_window_counterexample:
  "claim_exp (fst (token_claims demo_externals ''proj'' demo_world))
     \<noteq> claim_iat (fst (token_claims demo_externals ''proj'' demo_world)) + minutes60"
  by (simp add: token_claims_def utcnow_def demo_externals_def demo_world_def)

text \<open>
  Claim C5, as amended. In the claim set of every token, \<open>iat\<close> is the first clock
  reading, \<open>exp\<close> is the second clock reading plus sixty minutes and \<open>aud\<close> is the
  project id. So \<open>exp\<close> equals \<open>iat\<close> plus sixty minutes when the two readings
  coincide, and is at least that when the clock does not run backwards. A token
  returned by \<open>create_jwt\<close> is the encoding of exactly this claim set under the key
  read from the key file.
\<close>

theorem token_claims_window:
  "claim_iat (fst (token_claims X proj w)) = clock X (clock_reads w)
   \<and> claim_exp (fst (token_claims X proj w)) = clock X (Suc (clock_reads w)) + minutes60
   \<and> claim_aud (fst (token_claims X proj w)) = proj
   \<and> (clock X (Suc (clock_reads w)) = clock X (clock_reads w) \<longrightarrow>
        claim_exp (fst (token_claims X proj w))
          = claim_iat (fst (token_claims X proj w)) + minutes60)
   \<and> (clock X (clock_reads w) \<le> clock X (Suc (clock_reads w)) \<longrightarrow>
        claim_iat (fst (token_claims X proj w)) + minutes60
          \<le> claim_exp (fst (token_claims X proj w)))
   \<and> (fst (create_jwt X proj key_file alg w) = Inr t \<longrightarrow>
        (\<exists>key. read_file X key_file = Some key
           \<and> jwt_encode X (fst (token_claims X proj w)) key alg = Some t))"
  by (auto simp: token_claims_def create_jwt_def utcnow_def split: option.splits)

theorem token_claims_window_witness:
  "clock frozen_externals (Suc (clock_reads demo_world))
     = clock frozen_externals (clock_reads demo_world)
   \<and> clock frozen_externals (clock_reads demo_world)
       \<le> clock frozen_externals (Suc (clock_reads demo_world))
   \<and> fst (create_jwt frozen_externals ''proj'' ''rsa_private.pem'' ''RS256'' demo_world)
       = Inr ''jwt''
   \<and> claim_iat (fst (token_claims frozen_externals ''proj'' demo_world)) = 1700000000000000
   \<and> claim_exp (fst (token_claims frozen_externals ''proj'' demo_world))
       = claim_iat (fst (token_claims frozen_externals ''proj'' demo_world)) + minutes60
   \<and> claim_aud (fst (token_claims frozen_externals ''proj'' demo_world)) = ''proj''"
proof -
  have h: "fst (create_jwt frozen_externals ''proj'' ''rsa_private.pem'' ''RS256'' demo_world)
             = Inr ''jwt''"
    by (simp add: create_jwt_def token_claims_def utcnow_def frozen_externals_def
          demo_externals_def)
  have c: "clock frozen_externals (Suc (clock_reads demo_world))
             = clock frozen_externals (clock_reads demo_world)"
    by (simp add: frozen_externals_def)
  show ?thesis
    using h c token_claims_window [of frozen_externals "''proj''" demo_world
        "''rsa_private.pem''" "''RS256''" "''jwt''"]
    by (simp add: frozen_externals_def demo_world_def)
qed

section \<open>Initialisation\<close>

lemma uniform_from_range:
  fixes b r :: int
  assumes "unit_interval P" and "0 < r" and "0 < b" and "b + r < 2 ^ 53"
  shows "of_int b \<le> fst (uniform_from P (of_int b) (of_int r) g)
       \<and> fst (uniform_from P (of_int b) (of_int r) g) \<le> of_int b + of_int r"
proof -
  obtain u g' where e: "random_fn P g = (u, g')" by fastforce
  from assms(1) have "0 \<le> fst (random_fn P g)" and "fst (random_fn P g) < 1"
    by (simp_all add: unit_interval_def)
  with e have u: "0 \<le> u" "u < 1" by simp_all
  let ?p = "u * of_int r"
  from u assms(2) have p: "0 \<le> ?p" "?p \<le> of_int r"
    by (simp_all add: mult_left_le_one_le)
  have big: "(of_int (b + r) :: real) < 2 ^ 53"
    using assms(4) by (metis of_int_less_iff of_int_numeral of_int_power)
  from p assms(3) big have pb: "\<bar>?p\<bar> < 2 ^ 53" by simp
  have q0: "of_int 0 \<le> round_double ?p"
    by (rule round_double_ge_int [OF pb]) (simp add: p)
  have q1: "round_double ?p \<le> of_int r"
    by (rule round_double_le_int [OF pb]) (simp add: p)
  let ?s = "of_int b + round_double ?p"
  from q0 q1 assms(3) big have sb: "\<bar>?s\<bar> < 2 ^ 53" by simp
  have lo: "of_int b \<le> round_double ?s"
    by (rule round_double_ge_int [OF sb]) (use q0 in simp)
  have "round_double ?s \<le> of_int (b + r)"
    by (rule round_double_le_int [OF sb]) (use q1 in simp)
  with lo show ?thesis by (simp add: uniform_from_def e)
qed

lemma init_sim_quantities:
  "init_spec P initial_constants (seed_fn P dev) =
     (map snd (quantities (fst (init_sim P dev))),
      ((\<lambda>g. snd (random_fn P g)) ^^ 12) (seed_fn P dev))"
proof -
  obtain u1 g1 where e1: "random_fn P (seed_fn P dev) = (u1, g1)" by fastforce
  obtain u2 g2 where e2: "random_fn P g1 = (u2, g2)" by fastforce
  obtain u3 g3 where e3: "random_fn P g2 = (u3, g3)" by fastforce
  obtain u4 g4 where e4: "random_fn P g3 = (u4, g4)" by fastforce
  obtain u5 g5 where e5: "random_fn P g4 = (u5, g5)" by fastforce
  obtain u6 g6 where e6: "random_fn P g5 = (u6, g6)" by fastforce
  obtain u7 g7 where e7: "random_fn P g6 = (u7, g7)" by fastforce
  obtain u8 g8 where e8: "random_fn P g7 = (u8, g8)" by fastforce
  obtain u9 g9 where e9: "random_fn P g8 = (u9, g9)" by fastforce
  obtain u10 g10 where e10: "random_fn P g9 = (u10, g10)" by fastforce
  obtain u11 g11 where e11: "random_fn P g10 = (u11, g11)" by fastforce
  obtain u12 g12 where e12: "random_fn P g11 = (u12, g12)" by fastforce
  obtain t g13 where e13: "coin P g12 = (t, g13)" by fastforce
  show ?thesis
    by (simp add: init_sim_def uniform_from_def initial_constants_def quantities_def
          eval_nat_numeral e1 e2 e3 e4 e5 e6 e7 e8 e9 e10 e11 e12 e13)
qed

lemma init_sim_initial_range:
  assumes "unit_interval P"
  shows "initial_range (fst (init_sim P dev))"
proof -
  have r: "of_int b \<le> fst (uniform_from P (of_int b) (of_int r) g)
       \<and> fst (uniform_from P (of_int b) (of_int r) g) \<le> of_int b + of_int r"
    if "0 < r" "0 < b" "b + r < 2 ^ 53" for b r :: int and g
    using uniform_from_range [OF assms that] .
  obtain v1 g1 where e1: "uniform_from P 45 20 (seed_fn P dev) = (v1, g1)" by fastforce
  obtain v2 g2 where e2: "uniform_from P 35 10 g1 = (v2, g2)" by fastforce
  obtain v3 g3 where e3: "uniform_from P 1000 25 g2 = (v3, g3)" by fastforce
  obtain v4 g4 where e4: "uniform_from P 25 30 g3 = (v4, g4)" by fastforce
  obtain v5 g5 where e5: "uniform_from P 15 30 g4 = (v5, g5)" by fastforce
  obtain v6 g6 where e6: "uniform_from P 5 10 g5 = (v6, g6)" by fastforce
  obtain v7 g7 where e7: "uniform_from P 6 10 g6 = (v7, g7)" by fastforce
  obtain v8 g8 where e8: "uniform_from P 50 10 g7 = (v8, g8)" by fastforce
  obtain v9 g9 where e9: "uniform_from P 430 50 g8 = (v9, g9)" by fastforce
  obtain v10 g10 where e10: "uniform_from P 1900 200 g9 = (v10, g10)" by fastforce
  obtain v11 g11 where e11: "uniform_from P 330 100 g10 = (v11, g11)" by fastforce
  obtain v12 g12 where e12: "uniform_from P 900 300 g11 = (v12, g12)" by fastforce
  obtain t g13 where e13: "coin P g12 = (t, g13)" by fastforce
  have s: "fst (init_sim P dev) =
      \<lparr> simulated_temp = v1, simulated_temp_out = v2, sim_pressure = v3,
        sim_hum = v4, sim_hum_out = v5, sim_uv = v6, sim_irr = v7,
        sim_smoist = v8, sim_co2 = v9, sim_ch4 = v10, sim_n20 = v11,
        sim_cfc = v12, temperature_trend = t \<rparr>"
    by (simp add: init_sim_def e1 e2 e3 e4 e5 e6 e7 e8 e9 e10 e11 e12 e13)
  show ?thesis
    unfolding s initial_range_def
    using r [of 20 45 "seed_fn P dev"] r [of 10 35 g1] r [of 25 1000 g2] r [of 30 25 g3]
      r [of 30 15 g4] r [of 10 5 g5] r [of 10 6 g6] r [of 10 50 g7] r [of 50 430 g8]
      r [of 200 1900 g9] r [of 100 330 g10] r [of 300 900 g11]
    by (simp add: e1 e2 e3 e4 e5 e6 e7 e8 e9 e10 e11 e12)
qed

lemma demo_unit_interval: "unit_interval demo_prng"
  by (simp add: unit_interval_def demo_prng_def)

text \<open>
  With a first draw of \<open>1 - 2^-53\<close>, the largest value \<open>random.random()\<close> returns, the
  product with 20 rounds to \<open>20 - 2^-48\<close> and the sum with 45 rounds to 65: the indoor
  temperature starts at its base plus range, not below it.
\<close>

theorem initial_upper_end_counterexample:
  "unit_interval edge_prng
   \<and> fst (random_fn edge_prng (seed_fn edge_prng ''dev-1'')) = 1 - 1 / 2 ^ 53
   \<and> simulated_temp (fst (init_sim edge_prng ''dev-1'')) = 65
   \<and> \<not> simulated_temp (fst (init_sim edge_prng ''dev-1'')) < 45 + 20"
  by (simp add: unit_interval_def edge_prng_def init_sim_def uniform_from_def coin_def
        round_double_eval)

text \<open>
  Claim C7, as amended. Initialisation seeds the generator from the device id and
  sets the twelve quantities, in order, each to its base plus the next draw of
  \<open>random()\<close> times its range, in double arithmetic. With \<open>random()\<close> in the unit
  interval every initial quantity lies from its base up to its base plus range, the
  upper end included. Two runs with the same device id and message count under the
  same pseudo-random source end in the same simulated state and generator state,
  whatever generator state, collaborators, log and other arguments each started
  with: a state on the trajectory of evolution steps from the initial state of that
  device id.
\<close>

theorem init_sim_in_range:
  assumes "unit_interval P" and "device_id a = device_id a'"
    and "num_messages a = num_messages a'"
  shows "init_spec P initial_constants (seed_fn P (device_id a)) =
       (map snd (quantities (fst (init_sim P (device_id a)))),
        ((\<lambda>g. snd (random_fn P g)) ^^ 12) (seed_fn P (device_id a)))
     \<and> initial_range (fst (init_sim P (device_id a)))
     \<and> (\<exists>k\<le>nat (num_messages a).
          (fst (snd (publish_phase_with idx P X a w)),
           rng (snd (snd (publish_phase_with idx P X a w))))
            = sim_run P k (init_sim P (device_id a)))
     \<and> fst (snd (publish_phase_with idx P X a w))
         = fst (snd (publish_phase_with idx P X' a' w'))
     \<and> rng (snd (snd (publish_phase_with idx P X a w)))
         = rng (snd (snd (publish_phase_with idx P X' a' w')))"
  using init_sim_quantities [of P "device_id a"] init_sim_initial_range [OF assms(1)]
    publish_phase_with_sim_run [of a idx P X w]
    publish_phase_with_state [OF assms(2) assms(3), of idx P X w X' w']
  by simp

theorem init_sim_in_range_witness:
  "unit_interval demo_prng
   \<and> device_id demo_args = device_id (demo_args \<lparr> project_id := ''other'' \<rparr>)
   \<and> num_messages demo_args = num_messages (demo_args \<lparr> project_id := ''other'' \<rparr>)
   \<and> initial_range (fst (init_sim demo_prng (device_id demo_args)))
   \<and> fst (init_spec demo_prng initial_constants (seed_fn demo_prng (device_id demo_args)))
       = [50, 40, 4075 / 4, 25, 45 / 2, 10, 27 / 2, 50, 885 / 2, 2000, 405, 900]
   \<and> fst (snd (publish_phase_with spec_compute demo_prng demo_externals demo_args demo_world))
       = fst (snd (publish_phase_with spec_compute demo_prng late_externals
           (demo_args \<lparr> project_id := ''other'' \<rparr>) (demo_world \<lparr> rng := 7 \<rparr>)))"
proof -
  have h: "device_id demo_args = device_id (demo_args \<lparr> project_id := ''other'' \<rparr>)"
    "num_messages demo_args = num_messages (demo_args \<lparr> project_id := ''other'' \<rparr>)"
    by simp_all
  have d: "device_id demo_args = ''dev-1''" by (simp add: demo_args_def)
  note t = init_sim_in_range [OF demo_unit_interval h, of spec_compute demo_externals
      demo_world late_externals "demo_world \<lparr> rng := 7 \<rparr>"]
  have "fst (init_spec demo_prng initial_constants (seed_fn demo_prng (device_id demo_args)))
      = map snd (quantities (fst (init_sim demo_prng (device_id demo_args))))"
    by (simp only: t [THEN conjunct1] fst_conv)
  then have q: "fst (init_spec demo_prng initial_constants
        (seed_fn demo_prng (device_id demo_args)))
      = [50, 40, 4075 / 4, 25, 45 / 2, 10, 27 / 2, 50, 885 / 2, 2000, 405, 900]"
    by (simp only: d demo_init fst_conv) (simp add: quantities_def)
  from demo_unit_interval h q t [THEN conjunct2, THEN conjunct1]
    t [THEN conjunct2, THEN conjunct2, THEN conjunct2, THEN conjunct1]
  show ?thesis by blast
qed

section \<open>Teardown\<close>

text \<open>
  Whatever the index computation: a run that reaches the end of \<open>main\<close> has called
  \<open>client.loop_stop()\<close> once, as the last thing logged; a run that ends in an exception
  has not called it.
\<close>

lemma main_with_teardowns:
  "teardowns (snd (main_with idx P X a w))
     = teardowns w + (if fst (main_with idx P X a w) = None then 1 else 0)
   \<and> (fst (main_with idx P X a w) = None \<longrightarrow>
        (\<exists>evs. events (snd (main_with idx P X a w)) = events w @ evs @ [LoopStop]
           \<and> LoopStop \<notin> set evs))"
proof -
  let ?w1 = "emit (NewClient (client_id a)) w"
  obtain r w2 where
    cj: "create_jwt X (project_id a) (private_key_file a) (algorithm a) ?w1 = (r, w2)"
    by fastforce
  have ev2: "events w2 = events w @ [NewClient (client_id a)]"
    using create_jwt_events [of X "project_id a" "private_key_file a" "algorithm a" ?w1]
    by (simp only: cj snd_conv) (simp add: emit_def)
  show ?thesis
  proof (cases r)
    case (Inl e)
    then show ?thesis by (simp add: main_with_def cj teardowns_def ev2)
  next
    case (Inr password)
    let ?w6 = "emit LoopStart (emit (Connect (mqtt_bridge_hostname a) (mqtt_bridge_port a))
                 (emit (TlsSet (ca_certs a)) (emit (UsernamePwSet ''unused'' password) w2)))"
    obtain q s w7 where pp: "publish_phase_with idx P X a ?w6 = (q, s, w7)"
      by (cases "publish_phase_with idx P X a ?w6") auto
    from publish_phase_with_events [of idx P X a ?w6] obtain evs
      where evs: "events w7 = events ?w6 @ evs" "LoopStop \<notin> set evs"
      by (auto simp: pp)
    have ev6: "events ?w6 =
        events w @ [NewClient (client_id a), UsernamePwSet ''unused'' password,
          TlsSet (ca_certs a), Connect (mqtt_bridge_hostname a) (mqtt_bridge_port a),
          LoopStart]"
      by (simp add: emit_def ev2)
    have m: "main_with idx P X a w =
        (if \<not> tls_ok X (ca_certs a)
         then (Some TLSError, emit (UsernamePwSet ''unused'' password) w2)
         else if \<not> connect_ok X (mqtt_bridge_hostname a) (mqtt_bridge_port a)
         then (Some ConnectError,
               emit (TlsSet (ca_certs a)) (emit (UsernamePwSet ''unused'' password) w2))
         else (case q of Some e \<Rightarrow> (Some e, w7) | None \<Rightarrow> (None, emit LoopStop w7)))"
      by (simp add: main_with_def cj Inr pp Let_def)
    from evs(2) have f: "filter (\<lambda>e. e = LoopStop) evs = []"
      by (auto simp: filter_empty_conv)
    show ?thesis
      unfolding m using evs f
      by (cases q) (auto simp: teardowns_def ev2 ev6 emit_def)
  qed
qed

text \<open>
  With at least one message asked for, \<open>main\<close> ends in an exception, and so without
  the call.
\<close>

lemma main_raises:
  assumes "1 \<le> num_messages a"
  shows "fst (main P X a w) \<noteq> None"
proof -
  let ?w1 = "emit (NewClient (client_id a)) w"
  obtain r w2 where
    cj: "create_jwt X (project_id a) (private_key_file a) (algorithm a) ?w1 = (r, w2)"
    by fastforce
  show ?thesis
  proof (cases r)
    case (Inl e)
    then show ?thesis by (simp add: main_unfold cj)
  next
    case (Inr password)
    let ?w6 = "emit LoopStart (emit (Connect (mqtt_bridge_hostname a) (mqtt_bridge_port a))
                 (emit (TlsSet (ca_certs a)) (emit (UsernamePwSet ''unused'' password) w2)))"
    obtain q s w7 where pp: "publish_phase P X a ?w6 = (q, s, w7)"
      by (cases "publish_phase P X a ?w6") auto
    from publish_phase_raises [OF assms, of P X ?w6] pp obtain e where "q = Some e" by auto
    then show ?thesis by (simp add: main_unfold cj Inr pp Let_def)
  qed
qed

lemma main_no_teardown:
  assumes "1 \<le> num_messages a"
  shows "teardowns (snd (main P X a w)) = teardowns w"
  using main_with_teardowns [of g_score P X a w] main_raises [OF assms, of P X w]
  by (simp add: main_def)

text \<open>
  Claim C9. After the ticks of a session, or on a fatal error, the transport teardown
  is meant to be requested exactly once. The concrete session (three messages, no
  collaborator failing) ends with TypeError on its first tick, and
  \<open>client.loop_stop()\<close> is not called: no teardown is requested.
\<close>

theorem demo_session_no_teardown:
  "num_messages demo_args = 3
   \<and> fst (main demo_prng demo_externals demo_args demo_world) = Some TypeError
   \<and> teardowns (snd (main demo_prng demo_externals demo_args demo_world)) = 0"
  by (simp add: demo_main teardowns_def) (simp add: demo_args_def)

section \<open>What the telemetry depends on\<close>

text \<open>No record is published outside the publish phase, and in the source none at all.\<close>

lemma publish_phase_publishes:
  "publishes (snd (snd (publish_phase P X a w))) = publishes w"
  by (simp add: publish_phase_unfold publish_loop_outcome publishes_def Let_def
        split: prod.splits list.splits)

lemma publishes_emit:
  "publishes (emit e w) = publishes w @ (case e of Publish t p q \<Rightarrow> [e] | _ \<Rightarrow> [])"
  by (cases e) (simp_all add: publishes_def emit_def)

lemma main_publishes: "publishes (snd (main P X a w)) = publishes w"
proof -
  let ?w1 = "emit (NewClient (client_id a)) w"
  obtain r w2 where cj:
    "create_jwt X (project_id a) (private_key_file a) (algorithm a) ?w1 = (r, w2)"
    by fastforce
  have "events w2 = events ?w1"
    using create_jwt_events [of X "project_id a" "private_key_file a" "algorithm a" ?w1]
    by (simp only: cj snd_conv)
  then have p2: "publishes w2 = publishes w"
    by (simp add: publishes_def emit_def)
  show ?thesis
  proof (cases r)
    case (Inl e)
    then show ?thesis by (simp add: main_unfold cj p2)
  next
    case (Inr password)
    let ?w6 = "emit LoopStart (emit (Connect (mqtt_bridge_hostname a) (mqtt_bridge_port a))
                 (emit (TlsSet (ca_certs a)) (emit (UsernamePwSet ''unused'' password) w2)))"
    obtain q s w7 where pp: "publish_phase P X a ?w6 = (q, s, w7)"
      by (cases "publish_phase P X a ?w6") auto
    have p7: "publishes w7 = publishes w"
      using publish_phase_publishes [of P X a ?w6] by (simp add: pp publishes_emit p2)
    show ?thesis
      by (cases q) (simp_all add: main_unfold cj Inr pp Let_def publishes_emit p2 p7)
  qed
qed

text \<open>
  The concrete session run with the calculator of the specification: three records
  are published.
\<close>

lemma demo_advance2:
  "advance demo_prng demo_tick_state 40 =
     (\<lparr> simulated_temp = 9997 / 200, simulated_temp_out = 1599 / 40,
        sim_pressure = 25464 / 25, sim_hum = 124 / 5, sim_hum_out = 2271 / 100,
        sim_uv = 981 / 100, sim_irr = 133 / 10, sim_smoist = 4979 / 100,
        sim_co2 = 44231 / 100, sim_ch4 = 9999 / 5, sim_n20 = 40479 / 100,
        sim_cfc = 89981 / 100, temperature_trend = - 1 \<rparr>, 62)"
  by (simp add: advance_def trend_step_def coin_step_def coin_def demo_prng_def
        demo_tick_state_def)

lemma demo_advance3:
  "advance demo_prng
     \<lparr> simulated_temp = 9997 / 200, simulated_temp_out = 1599 / 40,
       sim_pressure = 25464 / 25, sim_hum = 124 / 5, sim_hum_out = 2271 / 100,
       sim_uv = 981 / 100, sim_irr = 133 / 10, sim_smoist = 4979 / 100,
       sim_co2 = 44231 / 100, sim_ch4 = 9999 / 5, sim_n20 = 40479 / 100,
       sim_cfc = 89981 / 100, temperature_trend = - 1 \<rparr> 62 =
     (\<lparr> simulated_temp = 4997 / 100, simulated_temp_out = 3997 / 100,
        sim_pressure = 20369 / 20, sim_hum = 247 / 10, sim_hum_out = 114 / 5,
        sim_uv = 97 / 10, sim_irr = 66 / 5, sim_smoist = 497 / 10,
        sim_co2 = 2211 / 5, sim_ch4 = 19997 / 10, sim_n20 = 4047 / 10,
        sim_cfc = 8997 / 10, temperature_trend = - 1 \<rparr>, 84)"
  by (simp add: advance_def trend_step_def coin_step_def coin_def demo_prng_def)

lemma spec_compute_returns:
  "sim_pressure s + (sim_hum s - sim_hum_out s) \<noteq> 0 \<Longrightarrow>
     spec_compute s = Inr (PyFloat (index_spec s))"
  by (simp add: spec_compute_def)

lemma demo_spec_run_count:
  "fst (publish_phase_with spec_compute demo_prng demo_externals demo_args demo_world) = None
   \<and> length (publishes (snd (snd
        (publish_phase_with spec_compute demo_prng demo_externals demo_args demo_world)))) = 3"
proof -
  have c1: "spec_compute demo_tick_state = Inr (PyFloat (index_spec demo_tick_state))"
    by (rule spec_compute_returns) (simp add: demo_tick_state_def)
  note c2 = spec_compute_returns [of "fst (advance demo_prng demo_tick_state 40)",
      unfolded demo_advance2 fst_conv, simplified]
  note c3 = spec_compute_returns [of "fst (advance demo_prng
      (fst (advance demo_prng demo_tick_state 40)) 62)",
      unfolded demo_advance2 fst_conv demo_advance3, simplified]
  show ?thesis
    by (simp add: publish_phase_with_def demo_init demo_args_def demo_world_def upto.simps
          publish_loop_with.simps demo_advance demo_advance2 demo_advance3 c1 c2 c3
          time_time_def emit_def publishes_def Let_def)
qed

lemma untimed_filter_publish:
  "map untimed (filter (\<lambda>e. case e of Publish t p q \<Rightarrow> True | _ \<Rightarrow> False) xs)
     = filter (\<lambda>e. case e of Publish t p q \<Rightarrow> True | _ \<Rightarrow> False) (map untimed xs)"
  by (simp add: filter_map comp_def untimed_is_publish)

lemma published_values_untimed:
  assumes "map untimed (logged_since w r) = map untimed (logged_since w' r')"
  shows "published_values w r = published_values w' r'"
  unfolding published_values_def
  by (rule map_sensor_values_untimed) (simp only: untimed_filter_publish assms)

text \<open>
  The records of a run of \<open>main\<close> are those of its publish phase, or none when the run
  fails before it.
\<close>

lemma main_with_published:
  "published_values w (snd (main_with idx P X a w)) = []
   \<or> (\<exists>v. published_values w (snd (main_with idx P X a w))
            = published_values v (snd (snd (publish_phase_with idx P X a v))))"
proof -
  let ?p = "\<lambda>e. case e of Publish t p q \<Rightarrow> True | _ \<Rightarrow> False"
  let ?w1 = "emit (NewClient (client_id a)) w"
  obtain r w2 where
    cj: "create_jwt X (project_id a) (private_key_file a) (algorithm a) ?w1 = (r, w2)"
    by fastforce
  have ev2: "events w2 = events w @ [NewClient (client_id a)]"
    using create_jwt_events [of X "project_id a" "private_key_file a" "algorithm a" ?w1]
    by (simp only: cj snd_conv) (simp add: emit_def)
  show ?thesis
  proof (cases r)
    case (Inl e)
    then show ?thesis
      by (simp add: main_with_def cj published_values_def logged_since_def ev2)
  next
    case (Inr password)
    let ?w6 = "emit LoopStart (emit (Connect (mqtt_bridge_hostname a) (mqtt_bridge_port a))
                 (emit (TlsSet (ca_certs a)) (emit (UsernamePwSet ''unused'' password) w2)))"
    obtain q s w7 where pp: "publish_phase_with idx P X a ?w6 = (q, s, w7)"
      by (cases "publish_phase_with idx P X a ?w6") auto
    from publish_phase_with_events [of idx P X a ?w6] obtain evs
      where evs: "events w7 = events ?w6 @ evs"
      by (auto simp: pp)
    have ev6: "events ?w6 =
        events w @ [NewClient (client_id a), UsernamePwSet ''unused'' password,
          TlsSet (ca_certs a), Connect (mqtt_bridge_hostname a) (mqtt_bridge_port a),
          LoopStart]"
      by (simp add: emit_def ev2)
    have m: "main_with idx P X a w =
        (if \<not> tls_ok X (ca_certs a)
         then (Some TLSError, emit (UsernamePwSet ''unused'' password) w2)
         else if \<not> connect_ok X (mqtt_bridge_hostname a) (mqtt_bridge_port a)
         then (Some ConnectError,
               emit (TlsSet (ca_certs a)) (emit (UsernamePwSet ''unused'' password) w2))
         else (case q of Some e \<Rightarrow> (Some e, w7) | None \<Rightarrow> (None, emit LoopStop w7)))"
      by (simp add: main_with_def cj Inr pp Let_def)
    have ph: "published_values ?w6 (snd (snd (publish_phase_with idx P X a ?w6)))
                = map sensor_values (filter ?p evs)"
      by (simp add: pp published_values_def logged_since_def evs)
    show ?thesis
    proof (cases "tls_ok X (ca_certs a)
        \<and> connect_ok X (mqtt_bridge_hostname a) (mqtt_bridge_port a)")
      case False
      then show ?thesis
        by (auto simp: m published_values_def logged_since_def ev2 emit_def)
    next
      case True
      have "published_values w (snd (main_with idx P X a w))
              = map sensor_values (filter ?p evs)"
        using True
        by (cases q)
          (simp_all add: m published_values_def logged_since_def evs ev2 ev6 emit_def)
      with ph show ?thesis by metis
    qed
  qed
qed

text \<open>
  Claim C10. Two runs with the same device id, message count and message type under
  the same pseudo-random source, whatever their project id, cloud region and
  registry id (and every other argument, the collaborators and the log so far): their
  publish phases end alike and log the same publishes and sleeps, record for record
  the same topic, device, twelve sensor values, index and delivery level; and the
  two runs of \<open>main\<close> publish the same sensor values and index, record by record,
  unless one of them fails before its publish phase and publishes nothing. This holds
  whatever the index computation returns, the expression of the source included.
\<close>

theorem telemetry_depends_on_device_only:
  assumes "device_id a = device_id a'" and "num_messages a = num_messages a'"
    and "message_type a = message_type a'"
  shows "published_values w (snd (snd (publish_phase_with idx P X a w)))
           = published_values w' (snd (snd (publish_phase_with idx P X' a' w')))
     \<and> map untimed (logged_since w (snd (snd (publish_phase_with idx P X a w))))
         = map untimed (logged_since w' (snd (snd (publish_phase_with idx P X' a' w'))))
     \<and> fst (publish_phase_with idx P X a w) = fst (publish_phase_with idx P X' a' w')
     \<and> (published_values w (snd (main_with idx P X a w))
           = published_values w' (snd (main_with idx P X' a' w'))
         \<or> published_values w (snd (main_with idx P X a w)) = []
         \<or> published_values w' (snd (main_with idx P X' a' w')) = [])"
proof -
  have ph: "published_values v (snd (snd (publish_phase_with idx P X a v)))
           = published_values v' (snd (snd (publish_phase_with idx P X' a' v')))" for v v'
    by (rule published_values_untimed) (rule publish_phase_with_log [OF assms])
  from main_with_published [of w idx P X a] main_with_published [of w' idx P X' a'] ph
  have "published_values w (snd (main_with idx P X a w))
           = published_values w' (snd (main_with idx P X' a' w'))
         \<or> published_values w (snd (main_with idx P X a w)) = []
         \<or> published_values w' (snd (main_with idx P X' a' w')) = []"
    by metis
  with ph [of w w'] publish_phase_with_log [OF assms, of w idx P X w' X']
    publish_phase_with_state [OF assms(1) assms(2), of idx P X w X' w']
  show ?thesis by simp
qed

theorem telemetry_depends_on_device_only_witness:
  "device_id demo_args
     = device_id (demo_args \<lparr> project_id := ''other'', registry_id := ''reg-2'',
                    cloud_region := ''europe-west1'' \<rparr>)
   \<and> num_messages demo_args
       = num_messages (demo_args \<lparr> project_id := ''other'', registry_id := ''reg-2'',
                    cloud_region := ''europe-west1'' \<rparr>)
   \<and> message_type demo_args
       = message_type (demo_args \<lparr> project_id := ''other'', registry_id := ''reg-2'',
                    cloud_region := ''europe-west1'' \<rparr>)
   \<and> published_values demo_world (snd (snd
         (publish_phase_with spec_compute demo_prng demo_externals demo_args demo_world)))
       = published_values (emit LoopStart demo_world) (snd (snd
           (publish_phase_with spec_compute demo_prng late_externals
              (demo_args \<lparr> project_id := ''other'', registry_id := ''reg-2'',
                 cloud_region := ''europe-west1'' \<rparr>) (emit LoopStart demo_world))))
   \<and> length (publishes (snd (snd
         (publish_phase_with spec_compute demo_prng demo_externals demo_args demo_world)))) = 3"
proof -
  have h: "device_id demo_args
     = device_id (demo_args \<lparr> project_id := ''other'', registry_id := ''reg-2'',
                    cloud_region := ''europe-west1'' \<rparr>)"
    "num_messages demo_args
     = num_messages (demo_args \<lparr> project_id := ''other'', registry_id := ''reg-2'',
                    cloud_region := ''europe-west1'' \<rparr>)"
    "message_type demo_args
     = message_type (demo_args \<lparr> project_id := ''other'', registry_id := ''reg-2'',
                    cloud_region := ''europe-west1'' \<rparr>)"
    by simp_all
  note t = telemetry_depends_on_device_only [OF h, of demo_world spec_compute demo_prng
      demo_externals "emit LoopStart demo_world" late_externals]
  from h t [THEN conjunct1] demo_spec_run_count [THEN conjunct2] show ?thesis by blast
qed

section \<open>The divisor of the index\<close>

lemma coin_step_bound:
  assumes "normal_bounded P"
  shows "\<bar>fst (coin_step P g)\<bar> \<le> 23 / 100"
proof -
  obtain c g1 where c: "coin P g = (c, g1)" by fastforce
  obtain d g2 where d: "normalvariate_fn P (1/10) (1/100) g1 = (d, g2)" by fastforce
  from c have c1: "\<bar>real_of_int c\<bar> = 1"
    by (auto simp: coin_def split: prod.splits if_splits)
  from assms have "\<bar>fst (normalvariate_fn P (1/10) (1/100) g1) - 1/10\<bar> \<le> 13 * (1/100)"
    unfolding normal_bounded_def by (metis zero_le_divide_1_iff zero_le_numeral)
  with d have "\<bar>d - 1/10\<bar> \<le> 13 / 100" by simp
  then have "\<bar>d\<bar> \<le> 23 / 100" by linarith
  with c1 have "\<bar>real_of_int c * d\<bar> \<le> 23 / 100" by (simp add: abs_mult)
  then show ?thesis by (simp add: coin_step_def c d)
qed

lemma advance_divisor:
  assumes "normal_bounded P"
  shows "sim_pressure s + (sim_hum s - sim_hum_out s) - 69 / 100
           \<le> sim_pressure (fst (advance P s g))
               + (sim_hum (fst (advance P s g)) - sim_hum_out (fst (advance P s g)))"
proof -
  obtain d1 g1 where e1: "trend_step P (temperature_trend s) g = (d1, g1)" by fastforce
  obtain d2 g2 where e2: "trend_step P (temperature_trend s) g1 = (d2, g2)" by fastforce
  obtain d3 g3 where e3: "coin_step P g2 = (d3, g3)" by fastforce
  obtain d4 g4 where e4: "coin_step P g3 = (d4, g4)" by fastforce
  obtain d5 g5 where e5: "coin_step P g4 = (d5, g5)" by fastforce
  from coin_step_bound [OF assms, of g2] e3 have b3: "\<bar>d3\<bar> \<le> 23 / 100" by simp
  from coin_step_bound [OF assms, of g3] e4 have b4: "\<bar>d4\<bar> \<le> 23 / 100" by simp
  from coin_step_bound [OF assms, of g4] e5 have b5: "\<bar>d5\<bar> \<le> 23 / 100" by simp
  have "sim_pressure (fst (advance P s g)) = sim_pressure s + d3"
    "sim_hum (fst (advance P s g)) = sim_hum s + d4"
    "sim_hum_out (fst (advance P s g)) = sim_hum_out s - d5"
    by (simp_all add: advance_def e1 e2 e3 e4 e5 split: prod.splits)
  with b3 b4 b5 show ?thesis by simp
qed

text \<open>
  Under the contracts of \<open>random.random\<close> and \<open>random.normalvariate\<close>, the divisor on the
  first tick of a session is above 977; the source never reaches a second tick. So no
  tick of a run divides by zero.
\<close>

lemma first_tick_divisor:
  assumes "unit_interval P" and "normal_bounded P"
  shows "977 < sim_pressure (fst (advance P (fst (init_sim P dev)) (snd (init_sim P dev))))
           + (sim_hum (fst (advance P (fst (init_sim P dev)) (snd (init_sim P dev))))
              - sim_hum_out (fst (advance P (fst (init_sim P dev)) (snd (init_sim P dev)))))"
  using init_sim_initial_range [OF assms(1), of dev]
    advance_divisor [OF assms(2), of "fst (init_sim P dev)" "snd (init_sim P dev)"]
  by (simp add: initial_range_def)

end
